theory Spec2Isabelle
  imports Complex_Main
begin

section \<open>Numeric values\<close>

text \<open>
  The statement tables are pandas data frames of float64 values, where a value that is
  missing for a period is NaN (\<^verbatim>\<open>pd.isna\<close> is the test the code itself uses for it).
  A finite float is modelled by the real number it denotes (rounding error and overflow
  are left out, there are no infinities and no negative zero), NaN by a value of its own
  with the IEEE rules written out: arithmetic on NaN gives NaN, and every comparison
  with NaN is false except \<^verbatim>\<open>!=\<close>, which is true.
\<close>

datatype fval = Num real | NaN

datatype py_error = IndexError | KeyError

fun isna :: "fval \<Rightarrow> bool" where
  "isna NaN = True"
| "isna (Num x) = False"

text \<open>\<^verbatim>\<open>x == 0\<close>, \<^verbatim>\<open>x != 0\<close>, \<^verbatim>\<open>x < c\<close>.\<close>

fun num_eq0 :: "fval \<Rightarrow> bool" where
  "num_eq0 (Num x) = (x = 0)"
| "num_eq0 NaN = False"

definition num_ne0 :: "fval \<Rightarrow> bool" where
  "num_ne0 x = (\<not> num_eq0 x)"

fun num_lt :: "fval \<Rightarrow> real \<Rightarrow> bool" where
  "num_lt (Num x) c = (x < c)"
| "num_lt NaN c = False"

fun num_abs :: "fval \<Rightarrow> fval" where
  "num_abs (Num x) = Num \<bar>x\<bar>"
| "num_abs NaN = NaN"

fun num_add :: "fval \<Rightarrow> fval \<Rightarrow> fval" where
  "num_add (Num a) (Num b) = Num (a + b)"
| "num_add _ _ = NaN"

fun num_sub :: "fval \<Rightarrow> fval \<Rightarrow> fval" where
  "num_sub (Num a) (Num b) = Num (a - b)"
| "num_sub _ _ = NaN"

text \<open>
  Every division of the program is guarded by a test of the divisor against 0, so a
  zero divisor never reaches \<open>num_div\<close>; the model has no infinity to return there and
  gives NaN.
\<close>

fun num_div :: "fval \<Rightarrow> fval \<Rightarrow> fval" where
  "num_div (Num a) (Num b) = (if b = 0 then NaN else Num (a / b))"
| "num_div _ _ = NaN"

section \<open>Rounding and number formatting\<close>

text \<open>
  Both \<^verbatim>\<open>round(x, 2)\<close> and the format \<^verbatim>\<open>,.0f\<close> round to the nearest value, a tie going
  to the even neighbour.
\<close>

definition round_half_even :: "real \<Rightarrow> int" where
  "round_half_even x =
     (let f = \<lfloor>x\<rfloor>; d = x - of_int f
      in if d < 1 / 2 then f
         else if 1 / 2 < d then f + 1
         else if even f then f else f + 1)"

text \<open>
  \<^verbatim>\<open>round(x, 2)\<close>; NaN rounds to NaN. The model rounds the real number that it is given:
  where the code rounds a quotient, that is the exact quotient, while the code rounds the
  double nearest to it, which can lie on the other side of a tie (23/40 is shown as 0.57
  by the code and is 0.58 here). The theorems below use a rounded value only where the
  two agree: at 0, at NaN and at quotients that are whole numbers.
\<close>

fun round2 :: "fval \<Rightarrow> fval" where
  "round2 (Num x) = Num (of_int (round_half_even (x * 100)) / 100)"
| "round2 NaN = NaN"

definition digit_char :: "nat \<Rightarrow> char" where
  "digit_char d = ''0123456789'' ! (d mod 10)"

function show_nat :: "nat \<Rightarrow> string" where
  "show_nat n = (if n < 10 then [digit_char n] else show_nat (n div 10) @ [digit_char n])"
  by pat_completeness auto
termination
  by (relation "measure id") auto

declare show_nat.simps [simp del]

text \<open>
  The thousands separator of the \<^verbatim>\<open>,\<close> format option: a comma before every group of
  three digits counted from the right. \<open>commas_rev\<close> works on the reversed digits.
\<close>

fun commas_rev :: "string \<Rightarrow> string" where
  "commas_rev (a # b # c # d # rest) = a # b # c # CHR '','' # commas_rev (d # rest)"
| "commas_rev ds = ds"

definition thousands :: "nat \<Rightarrow> string" where
  "thousands n = rev (commas_rev (rev (show_nat n)))"

text \<open>\<^verbatim>\<open>f"{x:,.0f}"\<close>: no decimals, thousands separators, a minus sign for a negative value,
  and the text \<^verbatim>\<open>nan\<close> for NaN.\<close>

fun format_comma_0f :: "fval \<Rightarrow> string" where
  "format_comma_0f NaN = ''nan''"
| "format_comma_0f (Num x) =
     (if x < 0 then ''-'' @ thousands (nat (round_half_even \<bar>x\<bar>))
      else thousands (nat (round_half_even x)))"

section \<open>The delta and the currency format\<close>

text \<open>
  Methods of \<^verbatim>\<open>TeslaFinancialReportGenerator\<close> (Colab_Q_A_fin_re.py) whose names start
  with an underscore are written with the prefix \<open>u_\<close>; \<^verbatim>\<open>calculate_percentage_change\<close>
  and \<^verbatim>\<open>format_currency\<close> are the methods of \<^verbatim>\<open>ExcelReportGenerator\<close>
  (financial_report_generator.py).
\<close>

definition u_calculate_pct_change :: "fval \<Rightarrow> fval \<Rightarrow> fval" where
  "u_calculate_pct_change current previous =
     (if num_eq0 previous then Num 0
      else num_div (num_sub current previous) (num_abs previous))"

definition calculate_percentage_change :: "fval \<Rightarrow> fval \<Rightarrow> fval" where
  "calculate_percentage_change current previous =
     (if num_eq0 previous then Num 0
      else num_div (num_sub current previous) (num_abs previous))"

definition u_format_currency :: "fval \<Rightarrow> string" where
  "u_format_currency v =
     (if isna v \<or> num_eq0 v then ''$0''
      else if num_lt v 0 then ''$('' @ format_comma_0f (num_abs v) @ '')''
      else ''$'' @ format_comma_0f v)"

definition format_currency :: "fval \<Rightarrow> string" where
  "format_currency v = ''$'' @ format_comma_0f v"

section \<open>Data frames and the generator\<close>

text \<open>
  A statement table: its columns are the period-end dates, most recent first (held as
  text, the way \<^verbatim>\<open>strftime('%m/%d/%Y')\<close> prints them), and \<open>loc\<close> gives the row of a line
  item, one value for each column. \<^verbatim>\<open>name in dataframe.index\<close> is \<open>loc df name \<noteq> None\<close>,
  and \<^verbatim>\<open>dataframe.loc[name]\<close> raises KeyError otherwise.
\<close>

record dataframe =
  columns :: "string list"
  loc :: "string \<rightharpoonup> fval list"

record generator =
  quarterly_balance_sheet :: "dataframe option"
  annual_balance_sheet :: "dataframe option"
  quarterly_income :: "dataframe option"
  annual_income :: "dataframe option"
  quarterly_cashflow :: "dataframe option"
  annual_cashflow :: "dataframe option"

text \<open>\<^verbatim>\<open>xs[i]\<close> raises IndexError out of range.\<close>

definition item :: "'a list \<Rightarrow> nat \<Rightarrow> py_error + 'a" where
  "item xs i = (if i < length xs then Inr (xs ! i) else Inl IndexError)"

section \<open>The worksheet\<close>

text \<open>
  A cell address is the column letter and the row number (\<^verbatim>\<open>f'{col}{row}'\<close>). Reading
  \<^verbatim>\<open>ws[address]\<close> creates the cell when the sheet has none there; assigning to
  \<^verbatim>\<open>ws[address]\<close> sets the value of the cell and keeps its style.
\<close>

type_synonym addr = "string \<times> nat"

datatype cellval = Text string | Numeric fval

datatype font = Font (bold: bool) (font_size: "nat option")

record cell =
  cvalue :: "cellval option"
  number_format :: string
  cfont :: "font option"
  alignment :: "string option"

record worksheet =
  title :: string
  cells :: "addr \<rightharpoonup> cell"
  merged_cells :: "string list"
  column_widths :: "string \<rightharpoonup> nat"

definition new_cell :: cell where
  "new_cell = \<lparr>cvalue = None, number_format = ''General'', cfont = None, alignment = None\<rparr>"

definition new_worksheet :: worksheet where
  "new_worksheet = \<lparr>title = ''Sheet'', cells = Map.empty, merged_cells = [],
     column_widths = Map.empty\<rparr>"

definition cell_at :: "worksheet \<Rightarrow> addr \<Rightarrow> cell" where
  "cell_at ws a = (case cells ws a of None \<Rightarrow> new_cell | Some c \<Rightarrow> c)"

definition set_value :: "worksheet \<Rightarrow> addr \<Rightarrow> cellval \<Rightarrow> worksheet" where
  "set_value ws a v = ws\<lparr>cells := (cells ws)(a \<mapsto> (cell_at ws a)\<lparr>cvalue := Some v\<rparr>)\<rparr>"

definition set_number_format :: "worksheet \<Rightarrow> addr \<Rightarrow> string \<Rightarrow> worksheet" where
  "set_number_format ws a f =
     ws\<lparr>cells := (cells ws)(a \<mapsto> (cell_at ws a)\<lparr>number_format := f\<rparr>)\<rparr>"

definition set_font :: "worksheet \<Rightarrow> addr \<Rightarrow> font \<Rightarrow> worksheet" where
  "set_font ws a f = ws\<lparr>cells := (cells ws)(a \<mapsto> (cell_at ws a)\<lparr>cfont := Some f\<rparr>)\<rparr>"

definition set_alignment :: "worksheet \<Rightarrow> addr \<Rightarrow> string \<Rightarrow> worksheet" where
  "set_alignment ws a h =
     ws\<lparr>cells := (cells ws)(a \<mapsto> (cell_at ws a)\<lparr>alignment := Some h\<rparr>)\<rparr>"

definition merge_cells :: "worksheet \<Rightarrow> string \<Rightarrow> worksheet" where
  "merge_cells ws r = ws\<lparr>merged_cells := merged_cells ws @ [r]\<rparr>"

definition set_width :: "worksheet \<Rightarrow> string \<Rightarrow> nat \<Rightarrow> worksheet" where
  "set_width ws c w = ws\<lparr>column_widths := (column_widths ws)(c \<mapsto> w)\<rparr>"

section \<open>Placing the values and deltas of a line item\<close>

text \<open>
  The number format of a delta cell:
  \<^verbatim>\<open>'0.00%' if abs(pct_change) < 10 else '0.0'\<close>.
\<close>

definition pct_number_format :: "fval \<Rightarrow> string" where
  "pct_number_format pct_change = (if num_lt (num_abs pct_change) 10 then ''0.00%'' else ''0.0'')"

text \<open>\<^verbatim>\<open>ws[a] = pct_change\<close> followed by \<^verbatim>\<open>ws[a].number_format = ...\<close>.\<close>

definition put_pct :: "worksheet \<Rightarrow> addr \<Rightarrow> fval \<Rightarrow> worksheet" where
  "put_pct ws a pct_change =
     set_number_format (set_value ws a (Numeric pct_change)) a (pct_number_format pct_change)"

text \<open>
  The body of the \<^verbatim>\<open>try\<close> block of \<^verbatim>\<open>_add_quarterly_data\<close> and of \<^verbatim>\<open>_add_annual_data\<close>
  (the same text in both), on \<^verbatim>\<open>values = dataframe.loc[field_name].values[:3]\<close>. It
  returns the sheet as the writes done so far leave it, and the exception that ended the
  block, if any.
\<close>

definition add_data_body ::
  "worksheet \<Rightarrow> nat \<Rightarrow> fval list \<Rightarrow> string \<Rightarrow> string \<Rightarrow> string \<Rightarrow> string \<Rightarrow> string
     \<Rightarrow> worksheet \<times> py_error option" where
  "add_data_body ws row vals col1 col2 col3 col4 col5 =
     (case item vals 0 of Inl e \<Rightarrow> (ws, Some e) | Inr v0 \<Rightarrow>
       (let ws1 = set_value ws (col1, row) (Text (u_format_currency v0)) in
        (case item vals 1 of Inl e \<Rightarrow> (ws1, Some e) | Inr v1 \<Rightarrow>
          (let ws2 = set_value ws1 (col3, row) (Text (u_format_currency v1)) in
           (case item vals 2 of Inl e \<Rightarrow> (ws2, Some e) | Inr v2 \<Rightarrow>
             (let ws3 = set_value ws2 (col5, row) (Text (u_format_currency v2));
                  ws4 = (if 2 \<le> length vals
                         then put_pct ws3 (col2, row) (u_calculate_pct_change v0 v1)
                         else ws3);
                  ws5 = (if 3 \<le> length vals
                         then put_pct ws4 (col4, row) (u_calculate_pct_change v1 v2)
                         else ws4)
              in (ws5, None)))))))"

text \<open>
  The two functions return at once when the table is absent or has no such line item;
  an exception of the body is caught and logged as a warning, the writes done before
  it stay. (The sixth column of \<^verbatim>\<open>_add_quarterly_data\<close> is not used by the source.)
\<close>

definition u_add_quarterly_data ::
  "worksheet \<Rightarrow> nat \<Rightarrow> dataframe option \<Rightarrow> string \<Rightarrow> string \<Rightarrow> string \<Rightarrow> string \<Rightarrow> string
     \<Rightarrow> string \<Rightarrow> string \<Rightarrow> worksheet" where
  "u_add_quarterly_data ws row dataframe field_name col1 col2 col3 col4 col5 col6 =
     (case dataframe of None \<Rightarrow> ws | Some df \<Rightarrow>
       (case loc df field_name of None \<Rightarrow> ws | Some r \<Rightarrow>
          fst (add_data_body ws row (take 3 r) col1 col2 col3 col4 col5)))"

definition u_add_annual_data ::
  "worksheet \<Rightarrow> nat \<Rightarrow> dataframe option \<Rightarrow> string \<Rightarrow> string \<Rightarrow> string \<Rightarrow> string \<Rightarrow> string
     \<Rightarrow> string \<Rightarrow> worksheet" where
  "u_add_annual_data ws row dataframe field_name col1 col2 col3 col4 col5 =
     (case dataframe of None \<Rightarrow> ws | Some df \<Rightarrow>
       (case loc df field_name of None \<Rightarrow> ws | Some r \<Rightarrow>
          fst (add_data_body ws row (take 3 r) col1 col2 col3 col4 col5)))"

section \<open>Derived metrics\<close>

text \<open>
  Each derived metric is computed twice by the same text, once from the quarterly table
  into the columns E, G, I and once from the annual table into K, M, O; the model takes
  the table and the columns as arguments. The row of a line item that the table does not
  have raises KeyError in \<^verbatim>\<open>loc\<close>, which the \<^verbatim>\<open>try\<close> around the computation catches (a
  warning is logged, nothing is written). The loops run over \<^verbatim>\<open>zip\<close> of the rows, so over
  the indices below the length of the shortest row, at most three.
\<close>

text \<open>
  \<^verbatim>\<open>table.loc[name].values[:3] if name in table.index else [0, 0, 0]\<close>: the row of a
  line item, or zeros for a line item that the table does not have.
\<close>

definition row_or_zeros :: "dataframe \<Rightarrow> string \<Rightarrow> fval list" where
  "row_or_zeros df name =
     (case loc df name of Some r \<Rightarrow> take 3 r | None \<Rightarrow> [Num 0, Num 0, Num 0])"

definition working_capital_loop ::
  "worksheet \<Rightarrow> nat \<Rightarrow> fval list \<Rightarrow> fval list \<Rightarrow> string list \<Rightarrow> string list \<Rightarrow> worksheet" where
  "working_capital_loop ws row current_assets current_liabilities cols pct_cols =
     foldl (\<lambda>w i.
        let working_capital = num_sub (current_assets ! i) (current_liabilities ! i);
            w1 = set_value w (cols ! i, row) (Text (u_format_currency working_capital))
        in if 0 < i
           then (let prev_wc = num_sub (current_assets ! (i - 1)) (current_liabilities ! (i - 1));
                     pct_change = u_calculate_pct_change working_capital prev_wc
                 in put_pct w1 (pct_cols ! (i - 1), row) pct_change)
           else w1)
       ws [0..<min (length current_assets) (length current_liabilities)]"

definition working_capital_part ::
  "worksheet \<Rightarrow> nat \<Rightarrow> dataframe option \<Rightarrow> string list \<Rightarrow> string list \<Rightarrow> worksheet" where
  "working_capital_part ws row table cols pct_cols =
     (case table of None \<Rightarrow> ws | Some df \<Rightarrow>
       (case loc df ''Total Current Assets'' of None \<Rightarrow> ws | Some ca \<Rightarrow>
         (case loc df ''Total Current Liabilities'' of None \<Rightarrow> ws | Some cl \<Rightarrow>
            working_capital_loop ws row (take 3 ca) (take 3 cl) cols pct_cols)))"

definition u_calculate_working_capital :: "generator \<Rightarrow> worksheet \<Rightarrow> nat \<Rightarrow> worksheet" where
  "u_calculate_working_capital self ws row =
     working_capital_part
       (working_capital_part ws row (quarterly_balance_sheet self)
          [''E'', ''G'', ''I''] [''F'', ''H''])
       row (annual_balance_sheet self) [''K'', ''M'', ''O''] [''L'', ''N'']"

definition current_ratio_loop ::
  "worksheet \<Rightarrow> nat \<Rightarrow> fval list \<Rightarrow> fval list \<Rightarrow> string list \<Rightarrow> worksheet" where
  "current_ratio_loop ws row current_assets current_liabilities cols =
     foldl (\<lambda>w i.
        if num_ne0 (current_liabilities ! i)
        then set_value w (cols ! i, row)
               (Numeric (round2 (num_div (current_assets ! i) (current_liabilities ! i))))
        else w)
       ws [0..<min (length current_assets) (length current_liabilities)]"

definition current_ratio_part ::
  "worksheet \<Rightarrow> nat \<Rightarrow> dataframe option \<Rightarrow> string list \<Rightarrow> worksheet" where
  "current_ratio_part ws row table cols =
     (case table of None \<Rightarrow> ws | Some df \<Rightarrow>
       (case loc df ''Total Current Assets'' of None \<Rightarrow> ws | Some ca \<Rightarrow>
         (case loc df ''Total Current Liabilities'' of None \<Rightarrow> ws | Some cl \<Rightarrow>
            current_ratio_loop ws row (take 3 ca) (take 3 cl) cols)))"

definition u_calculate_current_ratio :: "generator \<Rightarrow> worksheet \<Rightarrow> nat \<Rightarrow> worksheet" where
  "u_calculate_current_ratio self ws row =
     current_ratio_part
       (current_ratio_part ws row (quarterly_balance_sheet self) [''E'', ''G'', ''I''])
       row (annual_balance_sheet self) [''K'', ''M'', ''O'']"

definition quick_ratio_loop ::
  "worksheet \<Rightarrow> nat \<Rightarrow> fval list \<Rightarrow> fval list \<Rightarrow> fval list \<Rightarrow> string list \<Rightarrow> worksheet" where
  "quick_ratio_loop ws row current_assets inventory current_liabilities cols =
     foldl (\<lambda>w i.
        if num_ne0 (current_liabilities ! i)
        then set_value w (cols ! i, row)
               (Numeric (round2 (num_div (num_sub (current_assets ! i) (inventory ! i))
                                   (current_liabilities ! i))))
        else w)
       ws [0..<min (length current_assets)
                 (min (length inventory) (length current_liabilities))]"

definition quick_ratio_part ::
  "worksheet \<Rightarrow> nat \<Rightarrow> dataframe option \<Rightarrow> string list \<Rightarrow> worksheet" where
  "quick_ratio_part ws row table cols =
     (case table of None \<Rightarrow> ws | Some df \<Rightarrow>
       (case loc df ''Total Current Assets'' of None \<Rightarrow> ws | Some ca \<Rightarrow>
         (let inventory = row_or_zeros df ''Inventory''
          in (case loc df ''Total Current Liabilities'' of None \<Rightarrow> ws | Some cl \<Rightarrow>
                quick_ratio_loop ws row (take 3 ca) inventory (take 3 cl) cols))))"

definition u_calculate_quick_ratio :: "generator \<Rightarrow> worksheet \<Rightarrow> nat \<Rightarrow> worksheet" where
  "u_calculate_quick_ratio self ws row =
     quick_ratio_part
       (quick_ratio_part ws row (quarterly_balance_sheet self) [''E'', ''G'', ''I''])
       row (annual_balance_sheet self) [''K'', ''M'', ''O'']"

definition gross_margin_loop ::
  "worksheet \<Rightarrow> nat \<Rightarrow> fval list \<Rightarrow> fval list \<Rightarrow> string list \<Rightarrow> worksheet" where
  "gross_margin_loop ws row revenue gross_profit cols =
     foldl (\<lambda>w i.
        if num_ne0 (revenue ! i)
        then set_number_format
               (set_value w (cols ! i, row) (Numeric (num_div (gross_profit ! i) (revenue ! i))))
               (cols ! i, row) ''0.0%''
        else w)
       ws [0..<min (length revenue) (length gross_profit)]"

definition gross_margin_part ::
  "worksheet \<Rightarrow> nat \<Rightarrow> dataframe option \<Rightarrow> string list \<Rightarrow> worksheet" where
  "gross_margin_part ws row table cols =
     (case table of None \<Rightarrow> ws | Some df \<Rightarrow>
       (case loc df ''Total Revenue'' of None \<Rightarrow> ws | Some rv \<Rightarrow>
         (case loc df ''Gross Profit'' of None \<Rightarrow> ws | Some gp \<Rightarrow>
            gross_margin_loop ws row (take 3 rv) (take 3 gp) cols)))"

definition u_calculate_gross_margin :: "generator \<Rightarrow> worksheet \<Rightarrow> nat \<Rightarrow> worksheet" where
  "u_calculate_gross_margin self ws row =
     gross_margin_part
       (gross_margin_part ws row (quarterly_income self) [''E'', ''G'', ''I''])
       row (annual_income self) [''K'', ''M'', ''O'']"

text \<open>
  Net cash flow: a component whose line item the table does not have is \<^verbatim>\<open>[0, 0, 0]\<close>;
  the three values of a period are added as they are.
\<close>

definition net_cash :: "fval \<Rightarrow> fval \<Rightarrow> fval \<Rightarrow> fval" where
  "net_cash opr invs fin = num_add (num_add opr invs) fin"

definition net_cash_flow_loop ::
  "worksheet \<Rightarrow> nat \<Rightarrow> fval list \<Rightarrow> fval list \<Rightarrow> fval list \<Rightarrow> string list \<Rightarrow> worksheet" where
  "net_cash_flow_loop ws row operating investing financing cols =
     foldl (\<lambda>w i.
        set_value w (cols ! i, row)
          (Text (u_format_currency (net_cash (operating ! i) (investing ! i) (financing ! i)))))
       ws [0..<min (length operating) (min (length investing) (length financing))]"

definition net_cash_flow_part ::
  "worksheet \<Rightarrow> nat \<Rightarrow> dataframe option \<Rightarrow> string list \<Rightarrow> worksheet" where
  "net_cash_flow_part ws row table cols =
     (case table of None \<Rightarrow> ws | Some df \<Rightarrow>
        net_cash_flow_loop ws row (row_or_zeros df ''Operating Cash Flow'')
          (row_or_zeros df ''Investing Cash Flow'') (row_or_zeros df ''Financing Cash Flow'')
          cols)"

definition u_calculate_net_cash_flow :: "generator \<Rightarrow> worksheet \<Rightarrow> nat \<Rightarrow> worksheet" where
  "u_calculate_net_cash_flow self ws row =
     net_cash_flow_part
       (net_cash_flow_part ws row (quarterly_cashflow self) [''E'', ''G'', ''I''])
       row (annual_cashflow self) [''K'', ''M'', ''O'']"

section \<open>The layout of the report\<close>

text \<open>
  The quarterly values and deltas of a line item go into the columns E to I, the annual
  ones into K to O: the two calls that every catalogued line item gets.
\<close>

definition add_both ::
  "worksheet \<Rightarrow> nat \<Rightarrow> dataframe option \<Rightarrow> dataframe option \<Rightarrow> string \<Rightarrow> worksheet" where
  "add_both ws row quarterly annual field_name =
     u_add_annual_data
       (u_add_quarterly_data ws row quarterly field_name ''E'' ''F'' ''G'' ''H'' ''I'' ''J'')
       row annual field_name ''K'' ''L'' ''M'' ''N'' ''O''"

text \<open>
  A catalogue is a list of pairs of a label and the name of the line item in the table,
  \<open>None\<close> for a calculated row. The loops write the label into column C, fill the row
  and move one row down; they return the sheet and the next row.
\<close>

type_synonym catalogue = "(string \<times> string option) list"

fun balance_sheet_items_loop ::
  "generator \<Rightarrow> worksheet \<Rightarrow> nat \<Rightarrow> catalogue \<Rightarrow> worksheet \<times> nat" where
  "balance_sheet_items_loop self ws row [] = (ws, row)"
| "balance_sheet_items_loop self ws row ((item_name, field_name) # rest) =
     (let ws1 = set_value ws (''C'', row) (Text item_name);
          calculated = (if item_name = ''Working Capital''
                        then u_calculate_working_capital self ws1 row else ws1);
          ws2 = (case field_name of
                   None \<Rightarrow> calculated
                 | Some f \<Rightarrow>
                     if f \<noteq> [] \<and> f \<noteq> ''Working Capital''
                     then add_both ws1 row (quarterly_balance_sheet self)
                            (annual_balance_sheet self) f
                     else calculated)
      in balance_sheet_items_loop self ws2 (row + 1) rest)"

fun income_items_loop ::
  "generator \<Rightarrow> worksheet \<Rightarrow> nat \<Rightarrow> catalogue \<Rightarrow> worksheet \<times> nat" where
  "income_items_loop self ws row [] = (ws, row)"
| "income_items_loop self ws row ((item_name, field_name) # rest) =
     (let ws1 = set_value ws (''C'', row) (Text item_name);
          calculated = (if item_name = ''Gross Margin''
                        then u_calculate_gross_margin self ws1 row else ws1);
          ws2 = (case field_name of
                   None \<Rightarrow> calculated
                 | Some f \<Rightarrow>
                     if f \<noteq> []
                     then add_both ws1 row (quarterly_income self) (annual_income self) f
                     else calculated)
      in income_items_loop self ws2 (row + 1) rest)"

text \<open>The loops over the liabilities and over the three groups of cash flow items.\<close>

fun field_items_loop ::
  "dataframe option \<Rightarrow> dataframe option \<Rightarrow> worksheet \<Rightarrow> nat \<Rightarrow> catalogue
     \<Rightarrow> worksheet \<times> nat" where
  "field_items_loop quarterly annual ws row [] = (ws, row)"
| "field_items_loop quarterly annual ws row ((item_name, field_name) # rest) =
     (let ws1 = set_value ws (''C'', row) (Text item_name);
          ws2 = (case field_name of
                   None \<Rightarrow> ws1
                 | Some f \<Rightarrow> if f \<noteq> [] then add_both ws1 row quarterly annual f else ws1)
      in field_items_loop quarterly annual ws2 (row + 1) rest)"

definition balance_sheet_items :: catalogue where
  "balance_sheet_items =
     [(''Cash and Equivalents'', Some ''Cash And Cash Equivalents''),
      (''Short-Term Investments'', Some ''Other Short Term Investments''),
      (''Accounts Receivable'', Some ''Accounts Receivable''),
      (''Inventories'', Some ''Inventory''),
      (''Current Assets'', Some ''Current Assets''),
      (''Total Assets'', Some ''Total Assets''),
      (''Working Capital'', None)]"

definition liability_items :: catalogue where
  "liability_items =
     [(''Short-Term Debt'', Some ''Short Term Debt''),
      (''Accounts Payable'', Some ''Accounts Payable''),
      (''Other Current Liabilities'', Some ''Other Current Liabilities''),
      (''Current Liabilities'', Some ''Current Liabilities''),
      (''Long-Term Debt'', Some ''Long Term Debt''),
      (''Total Liabilities'', Some ''Total Liabilities Net Minority Interest''),
      (''Net Worth (OE)'', Some ''Total Stockholder Equity'')]"

definition income_items :: catalogue where
  "income_items =
     [(''Total Revenue'', Some ''Total Revenue''),
      (''Cost of Revenue'', Some ''Cost Of Revenue''),
      (''Gross Profit'', Some ''Gross Profit''),
      (''Operating Expenses'', Some ''Operating Expense''),
      (''Operating Income'', Some ''Operating Income''),
      (''EBITDA'', Some ''EBITDA''),
      (''EBIT'', Some ''EBIT''),
      (''Pretax Income'', Some ''Pretax Income''),
      (''Tax Provision'', Some ''Tax Provision''),
      (''Net Income'', Some ''Net Income''),
      (''Basic EPS'', Some ''Basic EPS''),
      (''Diluted EPS'', Some ''Diluted EPS''),
      (''Basic Average Shares'', Some ''Basic Average Shares''),
      (''Diluted Average Shares'', Some ''Diluted Average Shares''),
      (''Total Operating Expenses'', Some ''Total Expenses''),
      (''Interest Expense'', Some ''Interest Expense''),
      (''Gross Margin'', None)]"

definition operating_items :: catalogue where
  "operating_items =
     [(''Net Income'', Some ''Net Income''),
      (''Depreciation & Amortization'', Some ''Depreciation And Amortization''),
      (''Stock Based Compensation'', Some ''Stock Based Compensation''),
      (''Change in Working Capital'', Some ''Change In Working Capital''),
      (''Other Operating Activities'', Some ''Other Non Cash Items'')]"

definition investing_items :: catalogue where
  "investing_items =
     [(''Capital Expenditures'', Some ''Capital Expenditure''),
      (''Acquisitions'', Some ''Net Business Purchase And Sale''),
      (''Investments'', Some ''Net Investment Purchase And Sale''),
      (''Other Investing Activities'', Some ''Net Other Investing Changes'')]"

definition financing_items :: catalogue where
  "financing_items =
     [(''Debt Issuance/Retirement'', Some ''Net Issuance Payments Of Debt''),
      (''Stock Issuance/Buyback'', Some ''Net Common Stock Issuance''),
      (''Dividends Paid'', Some ''Cash Dividends Paid''),
      (''Other Financing Activities'', Some ''Net Other Financing Charges'')]"

definition u_add_balance_sheet_items ::
  "generator \<Rightarrow> worksheet \<Rightarrow> nat \<Rightarrow> worksheet \<times> nat" where
  "u_add_balance_sheet_items self ws start_row =
     (let (ws1, row1) = balance_sheet_items_loop self ws start_row balance_sheet_items;
          row2 = row1 + 1;
          ws2 = set_font (set_value ws1 (''B'', row2) (Text ''Liabilities:''))
                  (''B'', row2) (Font True None);
          (ws3, row3) = field_items_loop (quarterly_balance_sheet self)
                          (annual_balance_sheet self) ws2 (row2 + 1) liability_items;
          row4 = row3 + 1;
          ws4 = u_calculate_current_ratio self
                  (set_value ws3 (''A'', row4) (Text ''Current Ratio'')) row4;
          row5 = row4 + 1;
          ws5 = u_calculate_quick_ratio self
                  (set_value ws4 (''A'', row5) (Text ''Quick Ratio'')) row5
      in (ws5, row5))"

definition u_add_income_statement_items ::
  "generator \<Rightarrow> worksheet \<Rightarrow> nat \<Rightarrow> worksheet \<times> nat" where
  "u_add_income_statement_items self ws start_row =
     income_items_loop self ws start_row income_items"

definition u_add_cash_flow_items ::
  "generator \<Rightarrow> worksheet \<Rightarrow> nat \<Rightarrow> worksheet \<times> nat" where
  "u_add_cash_flow_items self ws start_row =
     (let q = quarterly_cashflow self; a = annual_cashflow self;
          ws1 = set_font (set_value ws (''B'', start_row)
                            (Text ''Cash Flows-Operating Activities:''))
                  (''B'', start_row) (Font True None);
          (ws2, row2) = field_items_loop q a ws1 (start_row + 1) operating_items;
          ws3 = add_both (set_value ws2 (''B'', row2) (Text ''Net Cash Flow-Operating''))
                  row2 q a ''Operating Cash Flow'';
          row3 = row2 + 2;
          ws4 = set_font (set_value ws3 (''B'', row3)
                            (Text ''Cash Flows-Investing Activities:''))
                  (''B'', row3) (Font True None);
          (ws5, row5) = field_items_loop q a ws4 (row3 + 1) investing_items;
          ws6 = add_both (set_value ws5 (''B'', row5) (Text ''Net Cash Flows-Investing''))
                  row5 q a ''Investing Cash Flow'';
          row6 = row5 + 2;
          ws7 = set_font (set_value ws6 (''B'', row6)
                            (Text ''Cash Flows-Financing Activities:''))
                  (''B'', row6) (Font True None);
          (ws8, row8) = field_items_loop q a ws7 (row6 + 1) financing_items;
          ws9 = add_both (set_value ws8 (''B'', row8) (Text ''Net Cash Flows-Financing''))
                  row8 q a ''Financing Cash Flow'';
          row9 = row8 + 2;
          ws10 = u_calculate_net_cash_flow self
                   (set_value ws9 (''B'', row9) (Text ''Net Cash Flow'')) row9
      in (ws10, row9))"

text \<open>The decimal text of an integer, and the header \<^verbatim>\<open>f"FY {year}"\<close>.\<close>

definition show_int :: "int \<Rightarrow> string" where
  "show_int i = (if i < 0 then ''-'' @ show_nat (nat (- i)) else show_nat (nat i))"

definition fy_header :: "int \<Rightarrow> string" where
  "fy_header y = ''FY '' @ show_int y"

text \<open>The header of the delta columns: a capital delta (two bytes in UTF-8) and \<^verbatim>\<open>%\<close>.\<close>

definition delta_header :: string where
  "delta_header = [CHR 0xCE, CHR 0x94, CHR ''%'']"

text \<open>
  The three annual headers of a section, from \<^verbatim>\<open>datetime.now().year\<close>, which is the
  argument \<open>year\<close> of the model.
\<close>

definition fy_headers :: "worksheet \<Rightarrow> nat \<Rightarrow> int \<Rightarrow> worksheet" where
  "fy_headers ws row year =
     set_value
       (set_value
          (set_value ws (''K'', row) (Text (fy_header (year - 1))))
          (''M'', row) (Text (fy_header (year - 2))))
       (''O'', row) (Text (fy_header (year - 3)))"

definition date_headers ::
  "worksheet \<Rightarrow> dataframe option \<Rightarrow> string \<Rightarrow> string \<Rightarrow> string \<Rightarrow> worksheet" where
  "date_headers ws table c1 c2 c3 =
     (case table of None \<Rightarrow> ws | Some df \<Rightarrow>
        if 3 \<le> length (columns df)
        then set_value
               (set_value
                  (set_value ws (c1, 6) (Text (columns df ! 0)))
                  (c2, 6) (Text (columns df ! 1)))
               (c3, 6) (Text (columns df ! 2))
        else ws)"

definition set_column_widths :: "worksheet \<Rightarrow> worksheet" where
  "set_column_widths ws =
     foldl (\<lambda>w (c, n). set_width w c n) ws
       [(''A'', 2), (''B'', 4), (''C'', 30), (''D'', 2), (''E'', 15), (''F'', 8), (''G'', 15),
        (''H'', 8), (''I'', 15), (''J'', 8), (''K'', 15), (''L'', 8), (''M'', 15), (''N'', 8),
        (''O'', 15)]"

definition report_title :: "worksheet \<Rightarrow> worksheet" where
  "report_title ws =
     set_alignment
       (merge_cells
          (set_font (set_value (ws\<lparr>title := ''Sheet1''\<rparr>) (''A'', 1)
                       (Text ''FINANCIAL STATEMENTS''))
             (''A'', 1) (Font True (Some 16)))
          ''A1:O1'')
       (''A'', 1) ''center''"

definition balance_sheet_headers :: "worksheet \<Rightarrow> worksheet" where
  "balance_sheet_headers ws =
     (let ws1 = set_font (set_value ws (''A'', 3) (Text ''Balance Sheet Data:''))
                  (''A'', 3) (Font True (Some 14));
          ws2 = set_value ws1 (''B'', 5) (Text ''In Thousands'');
          ws3 = set_value ws2 (''C'', 5) (Numeric (Num 1000));
          ws4 = set_value ws3 (''E'', 5) (Text ''Q'');
          ws5 = set_value ws4 (''G'', 5) (Text ''Q'')
      in set_value ws5 (''I'', 5) (Text ''Q''))"

definition assets_header :: "worksheet \<Rightarrow> worksheet" where
  "assets_header ws =
     (let ws1 = set_font (set_value ws (''B'', 7) (Text ''Assets:''))
                  (''B'', 7) (Font True (Some 12))
      in foldl (\<lambda>w c. set_value w (c, 7) (Text delta_header)) ws1
           [''F'', ''H'', ''J'', ''L'', ''N''])"

definition section_header :: "worksheet \<Rightarrow> nat \<Rightarrow> string \<Rightarrow> worksheet" where
  "section_header ws row label =
     set_font (set_value ws (''A'', row) (Text label)) (''A'', row) (Font True (Some 14))"

text \<open>
  \<^verbatim>\<open>create_excel_report\<close>, up to the saving of the workbook: the sheet it has built.
\<close>

definition create_excel_report :: "int \<Rightarrow> generator \<Rightarrow> worksheet" where
  "create_excel_report year self =
     (let ws1 = balance_sheet_headers (report_title new_worksheet);
          ws2 = fy_headers ws1 5 year;
          ws3 = date_headers ws2 (quarterly_balance_sheet self) ''E'' ''G'' ''I'';
          ws4 = date_headers ws3 (annual_balance_sheet self) ''K'' ''M'' ''O'';
          ws5 = assets_header ws4;
          ws6 = fst (u_add_balance_sheet_items self ws5 8);
          ws7 = section_header ws6 31 ''Income Statement:'';
          ws8 = fy_headers ws7 32 year;
          ws9 = fst (u_add_income_statement_items self ws8 35);
          ws10 = section_header ws9 56 ''Cash Flows:'';
          ws11 = fy_headers ws10 57 year;
          ws12 = fst (u_add_cash_flow_items self ws11 62)
      in set_column_widths ws12)"

section \<open>The quarterly report of financial_report_generator.py\<close>

text \<open>
  \<^verbatim>\<open>FinancialDataScraper\<close> reads each line item by
  \<^verbatim>\<open>table.loc[name].tolist()[:3] if name in table.index else [0,0,0]\<close>.
\<close>

definition fetch_row :: "dataframe \<Rightarrow> string \<Rightarrow> fval list" where
  "fetch_row table name =
     (case loc table name of Some r \<Rightarrow> take 3 r | None \<Rightarrow> [Num 0, Num 0, Num 0])"

record balance_sheet_data =
  dates :: "string list"
  cash_equivalents :: "fval list"
  short_term_investments :: "fval list"
  accounts_receivable :: "fval list"
  inventory :: "fval list"
  total_current_assets :: "fval list"
  ppe :: "fval list"
  total_assets :: "fval list"
  accounts_payable :: "fval list"
  short_term_debt :: "fval list"
  total_current_liabilities :: "fval list"
  long_term_debt :: "fval list"
  total_liabilities :: "fval list"
  total_equity :: "fval list"

record cash_flow_data =
  operating_cash_flow :: "fval list"
  depreciation :: "fval list"
  capex :: "fval list"
  investing_cash_flow :: "fval list"
  debt_repayment :: "fval list"
  dividends_paid :: "fval list"
  financing_cash_flow :: "fval list"
  free_cash_flow :: "fval list"

text \<open>
  The table that could not be fetched is \<open>None\<close>: the exception is caught, an error is
  logged and the method returns \<^verbatim>\<open>None\<close>. \<^verbatim>\<open>get_balance_sheet_data\<close> also formats the
  column dates; a table without period columns is the empty frame \<^verbatim>\<open>pd.DataFrame()\<close>, whose
  column index is not a date index, so that \<^verbatim>\<open>columns.strftime\<close> raises and the method
  returns \<^verbatim>\<open>None\<close> as well. \<^verbatim>\<open>get_cash_flow_data\<close> does not read the columns.
\<close>

definition get_balance_sheet_data :: "dataframe option \<Rightarrow> balance_sheet_data option" where
  "get_balance_sheet_data fetched =
     (case fetched of None \<Rightarrow> None | Some balance_sheet \<Rightarrow>
      if columns balance_sheet = [] then None else
        Some \<lparr>dates = take 3 (columns balance_sheet),
              cash_equivalents = fetch_row balance_sheet ''Cash And Cash Equivalents'',
              short_term_investments = fetch_row balance_sheet ''Other Short Term Investments'',
              accounts_receivable = fetch_row balance_sheet ''Accounts Receivable'',
              inventory = fetch_row balance_sheet ''Inventory'',
              total_current_assets = fetch_row balance_sheet ''Total Current Assets'',
              ppe = fetch_row balance_sheet ''Property Plant Equipment Net'',
              total_assets = fetch_row balance_sheet ''Total Assets'',
              accounts_payable = fetch_row balance_sheet ''Accounts Payable'',
              short_term_debt = fetch_row balance_sheet ''Short Term Debt'',
              total_current_liabilities = fetch_row balance_sheet ''Total Current Liabilities'',
              long_term_debt = fetch_row balance_sheet ''Long Term Debt'',
              total_liabilities = fetch_row balance_sheet ''Total Liabilities'',
              total_equity = fetch_row balance_sheet ''Total Stockholder Equity''\<rparr>)"

definition get_cash_flow_data :: "dataframe option \<Rightarrow> cash_flow_data option" where
  "get_cash_flow_data fetched =
     (case fetched of None \<Rightarrow> None | Some cash_flow \<Rightarrow>
        Some \<lparr>operating_cash_flow = fetch_row cash_flow ''Operating Cash Flow'',
              depreciation = fetch_row cash_flow ''Depreciation'',
              capex = fetch_row cash_flow ''Capital Expenditure'',
              investing_cash_flow = fetch_row cash_flow ''Investing Cash Flow'',
              debt_repayment = fetch_row cash_flow ''Repayment Of Debt'',
              dividends_paid = fetch_row cash_flow ''Cash Dividends Paid'',
              financing_cash_flow = fetch_row cash_flow ''Financing Cash Flow'',
              free_cash_flow = fetch_row cash_flow ''Free Cash Flow''\<rparr>)"

text \<open>
  A list comprehension \<^verbatim>\<open>[f(i) for i in range(3)]\<close>: the first element that raises ends
  it. \<^verbatim>\<open>create_report\<close> has no handler, so the exception leaves the method.
\<close>

definition for_range3 :: "(nat \<Rightarrow> py_error + 'a) \<Rightarrow> py_error + 'a list" where
  "for_range3 f =
     (case f 0 of Inl e \<Rightarrow> Inl e | Inr a \<Rightarrow>
       (case f 1 of Inl e \<Rightarrow> Inl e | Inr b \<Rightarrow>
         (case f 2 of Inl e \<Rightarrow> Inl e | Inr c \<Rightarrow> Inr [a, b, c])))"

text \<open>
  The derived metrics of \<^verbatim>\<open>create_report\<close>, named after its local variables; the
  condition of a conditional expression is evaluated first.
\<close>

definition create_report_current_ratio :: "balance_sheet_data \<Rightarrow> py_error + fval list" where
  "create_report_current_ratio bsd =
     for_range3 (\<lambda>i.
       case item (total_current_liabilities bsd) i of Inl e \<Rightarrow> Inl e | Inr cl \<Rightarrow>
         if num_ne0 cl
         then (case item (total_current_assets bsd) i of Inl e \<Rightarrow> Inl e
               | Inr ca \<Rightarrow> Inr (num_div ca cl))
         else Inr (Num 0))"

definition create_report_quick_assets :: "balance_sheet_data \<Rightarrow> py_error + fval list" where
  "create_report_quick_assets bsd =
     for_range3 (\<lambda>i.
       case item (total_current_assets bsd) i of Inl e \<Rightarrow> Inl e | Inr ca \<Rightarrow>
         (case item (inventory bsd) i of Inl e \<Rightarrow> Inl e | Inr iv \<Rightarrow> Inr (num_sub ca iv)))"

definition create_report_quick_ratio :: "balance_sheet_data \<Rightarrow> py_error + fval list" where
  "create_report_quick_ratio bsd =
     (case create_report_quick_assets bsd of Inl e \<Rightarrow> Inl e | Inr quick_assets \<Rightarrow>
        for_range3 (\<lambda>i.
          case item (total_current_liabilities bsd) i of Inl e \<Rightarrow> Inl e | Inr cl \<Rightarrow>
            if num_ne0 cl
            then (case item quick_assets i of Inl e \<Rightarrow> Inl e
                  | Inr qa \<Rightarrow> Inr (num_div qa cl))
            else Inr (Num 0)))"

text \<open>The three cells of a ratio row are \<^verbatim>\<open>round(ratio[i], 2)\<close>.\<close>

definition ratio_cells :: "py_error + fval list \<Rightarrow> py_error + fval list" where
  "ratio_cells r = (case r of Inl e \<Rightarrow> Inl e | Inr xs \<Rightarrow> Inr (map round2 xs))"

definition create_report_net_cash_flow :: "cash_flow_data \<Rightarrow> py_error + fval list" where
  "create_report_net_cash_flow cfd =
     for_range3 (\<lambda>i.
       case item (operating_cash_flow cfd) i of Inl e \<Rightarrow> Inl e | Inr opr \<Rightarrow>
         (case item (investing_cash_flow cfd) i of Inl e \<Rightarrow> Inl e | Inr invs \<Rightarrow>
           (case item (financing_cash_flow cfd) i of Inl e \<Rightarrow> Inl e
            | Inr fin \<Rightarrow> Inr (num_add (num_add opr invs) fin))))"

text \<open>The three cells of the net cash flow row are \<^verbatim>\<open>format_currency(net_cash_flow[i])\<close>.\<close>

definition net_cash_flow_cells :: "cash_flow_data \<Rightarrow> py_error + string list" where
  "net_cash_flow_cells cfd =
     (case create_report_net_cash_flow cfd of Inl e \<Rightarrow> Inl e
      | Inr xs \<Rightarrow> Inr (map format_currency xs))"

section \<open>Recognising a formatted amount\<close>

text \<open>
  The shape that the claims give to the text of an amount, stated on its own and not
  through the functions that produce it: one to three digits followed by groups of a
  comma and three digits (\<open>grouped_rev\<close> reads the text from its end), and the number that
  the digits denote.
\<close>

definition is_digit :: "char \<Rightarrow> bool" where
  "is_digit c = (c \<in> set ''0123456789'')"

fun grouped_rev :: "string \<Rightarrow> bool" where
  "grouped_rev (a # b # c # d # rest) =
     (is_digit a \<and> is_digit b \<and> is_digit c \<and> d = CHR '','' \<and> grouped_rev rest)"
| "grouped_rev ds = (ds \<noteq> [] \<and> list_all is_digit ds)"

definition grouped_digits :: "string \<Rightarrow> bool" where
  "grouped_digits s = grouped_rev (rev s)"

definition digit_val :: "char \<Rightarrow> nat" where
  "digit_val c = of_char c - 48"

definition read_nat :: "string \<Rightarrow> nat" where
  "read_nat s = foldl (\<lambda>a c. 10 * a + digit_val c) 0 s"

section \<open>Loops that fill the slots of a row\<close>

text \<open>
  What the step of a loop over the period slots does to the sheet: at slot \<open>k\<close> it writes
  the cell of column \<open>cols ! k\<close> when \<open>cond k\<close> holds, and nothing else.
\<close>

definition writes_slot ::
  "(worksheet \<Rightarrow> nat \<Rightarrow> worksheet) \<Rightarrow> string list \<Rightarrow> nat \<Rightarrow> (nat \<Rightarrow> bool)
     \<Rightarrow> (nat \<Rightarrow> cell \<Rightarrow> cell) \<Rightarrow> bool" where
  "writes_slot step cols row cond upd =
     (\<forall>w k a. cells (step w k) a =
        (if a = (cols ! k, row) \<and> cond k then Some (upd k (cell_at w a)) else cells w a))"


text \<open>An example table: a line item whose deltas are 9.9999 and 10.\<close>

definition delta_example :: dataframe where
  "delta_example =
     \<lparr>columns = [''03/31/2025'', ''12/31/2024'', ''09/30/2024''],
      loc = [''Total Assets'' \<mapsto> [Num (109999 / 1000), Num 10, Num (10 / 11)]]\<rparr>"

section \<open>Period slots and example tables\<close>

text \<open>
  The two granularities of the report, with the value columns and the tables that
  belong to each; and the example inputs of the witnesses below.
\<close>

datatype granularity = Quarterly | Annual

fun value_cols :: "granularity \<Rightarrow> string list" where
  "value_cols Quarterly = [''E'', ''G'', ''I'']"
| "value_cols Annual = [''K'', ''M'', ''O'']"

fun balance_sheet_of :: "generator \<Rightarrow> granularity \<Rightarrow> dataframe option" where
  "balance_sheet_of self Quarterly = quarterly_balance_sheet self"
| "balance_sheet_of self Annual = annual_balance_sheet self"

fun income_of :: "generator \<Rightarrow> granularity \<Rightarrow> dataframe option" where
  "income_of self Quarterly = quarterly_income self"
| "income_of self Annual = annual_income self"

fun cashflow_of :: "generator \<Rightarrow> granularity \<Rightarrow> dataframe option" where
  "cashflow_of self Quarterly = quarterly_cashflow self"
| "cashflow_of self Annual = annual_cashflow self"

text \<open>
  A table with current liabilities of 0 in the first period and a missing value in the
  second, and likewise for the revenue; and the data that the quarterly report reads
  from it.
\<close>

definition ratio_example :: dataframe where
  "ratio_example =
     \<lparr>columns = [''03/31/2025'', ''12/31/2024'', ''09/30/2024''],
      loc = [''Total Current Assets'' \<mapsto> [Num 100, Num 90, Num 80],
             ''Total Current Liabilities'' \<mapsto> [Num 0, NaN, Num 40],
             ''Total Revenue'' \<mapsto> [Num 0, NaN, Num 100],
             ''Gross Profit'' \<mapsto> [Num 0, Num 40, Num 50]]\<rparr>"

text \<open>A table whose current liabilities are 0 in the first period and present in all.\<close>

definition zero_example :: dataframe where
  "zero_example =
     \<lparr>columns = [''03/31/2025'', ''12/31/2024'', ''09/30/2024''],
      loc = [''Total Current Assets'' \<mapsto> [Num 100, Num 90, Num 80],
             ''Total Current Liabilities'' \<mapsto> [Num 0, Num 40, Num 50]]\<rparr>"

definition zero_example_generator :: generator where
  "zero_example_generator =
     \<lparr>quarterly_balance_sheet = Some zero_example, annual_balance_sheet = None,
      quarterly_income = None, annual_income = None,
      quarterly_cashflow = None, annual_cashflow = None\<rparr>"

definition ratio_example_generator :: generator where
  "ratio_example_generator =
     \<lparr>quarterly_balance_sheet = Some ratio_example, annual_balance_sheet = None,
      quarterly_income = Some ratio_example, annual_income = None,
      quarterly_cashflow = None, annual_cashflow = None\<rparr>"

definition ratio_example_data :: balance_sheet_data where
  "ratio_example_data =
     \<lparr>dates = [''03/31/2025'', ''12/31/2024'', ''09/30/2024''],
      cash_equivalents = [Num 0, Num 0, Num 0],
      short_term_investments = [Num 0, Num 0, Num 0],
      accounts_receivable = [Num 0, Num 0, Num 0],
      inventory = [Num 0, Num 0, Num 0],
      total_current_assets = [Num 100, Num 90, Num 80],
      ppe = [Num 0, Num 0, Num 0],
      total_assets = [Num 0, Num 0, Num 0],
      accounts_payable = [Num 0, Num 0, Num 0],
      short_term_debt = [Num 0, Num 0, Num 0],
      total_current_liabilities = [Num 0, NaN, Num 40],
      long_term_debt = [Num 0, Num 0, Num 0],
      total_liabilities = [Num 0, Num 0, Num 0],
      total_equity = [Num 0, Num 0, Num 0]\<rparr>"

text \<open>Cash flows whose first operating value is missing.\<close>

definition cash_example :: dataframe where
  "cash_example =
     \<lparr>columns = [''03/31/2025'', ''12/31/2024'', ''09/30/2024''],
      loc = [''Operating Cash Flow'' \<mapsto> [NaN, Num 50, Num 60],
             ''Investing Cash Flow'' \<mapsto> [Num (- 10), Num (- 10), Num (- 10)],
             ''Financing Cash Flow'' \<mapsto> [Num 5, Num 5, Num 5]]\<rparr>"

definition cash_example_generator :: generator where
  "cash_example_generator =
     \<lparr>quarterly_balance_sheet = None, annual_balance_sheet = None,
      quarterly_income = None, annual_income = None,
      quarterly_cashflow = Some cash_example, annual_cashflow = None\<rparr>"

definition cash_example_data :: cash_flow_data where
  "cash_example_data =
     \<lparr>operating_cash_flow = [NaN, Num 50, Num 60],
      depreciation = [Num 0, Num 0, Num 0],
      capex = [Num 0, Num 0, Num 0],
      investing_cash_flow = [Num (- 10), Num (- 10), Num (- 10)],
      debt_repayment = [Num 0, Num 0, Num 0],
      dividends_paid = [Num 0, Num 0, Num 0],
      financing_cash_flow = [Num 5, Num 5, Num 5],
      free_cash_flow = [Num 0, Num 0, Num 0]\<rparr>"

section \<open>Relating two runs of the report\<close>

text \<open>
  Two sheets agree outside a set of addresses when they hold the same cells there and
  the same title, merged ranges and column widths; a sheet is covered by another when
  every address that has a cell in the first has one in the second. A writer is a step
  of the report that reads the sheet only at the cells it writes: it keeps both
  relations and removes no cell.
\<close>

definition agree :: "addr set \<Rightarrow> worksheet \<Rightarrow> worksheet \<Rightarrow> bool" where
  "agree S w1 w2 \<longleftrightarrow>
     (\<forall>a. a \<notin> S \<longrightarrow> cells w1 a = cells w2 a) \<and> title w1 = title w2
     \<and> merged_cells w1 = merged_cells w2 \<and> column_widths w1 = column_widths w2"

definition covered :: "worksheet \<Rightarrow> worksheet \<Rightarrow> bool" where
  "covered w1 w2 \<longleftrightarrow> dom (cells w1) \<subseteq> dom (cells w2)"

definition writer :: "(worksheet \<Rightarrow> worksheet) \<Rightarrow> bool" where
  "writer f \<longleftrightarrow>
     (\<forall>S w1 w2. agree S w1 w2 \<longrightarrow> agree S (f w1) (f w2))
     \<and> (\<forall>w1 w2. covered w1 w2 \<longrightarrow> covered (f w1) (f w2))
     \<and> (\<forall>w. covered w (f w))"

text \<open>The generator whose six tables could not be fetched.\<close>

definition no_data :: generator where
  "no_data =
     \<lparr>quarterly_balance_sheet = None, annual_balance_sheet = None,
      quarterly_income = None, annual_income = None,
      quarterly_cashflow = None, annual_cashflow = None\<rparr>"

text \<open>The nine cells of the annual column headers.\<close>

definition fy_header_cells :: "addr set" where
  "fy_header_cells =
     {(''K'', 5), (''M'', 5), (''O'', 5), (''K'', 32), (''M'', 32), (''O'', 32),
      (''K'', 57), (''M'', 57), (''O'', 57)}"

text \<open>A generator with one table, which holds one line item.\<close>

definition assets_generator :: generator where
  "assets_generator =
     \<lparr>quarterly_balance_sheet = Some delta_example, annual_balance_sheet = None,
      quarterly_income = None, annual_income = None,
      quarterly_cashflow = None, annual_cashflow = None\<rparr>"

section \<open>The format rule of the delta columns\<close>




section \<open>The rows a stage of the report writes\<close>

text \<open>
  The report is written from the top down: a transformation of the sheet that writes no
  cell above the row \<open>lo\<close> leaves every cell of the rows above \<open>lo\<close> as it was.
\<close>

definition from_row :: "nat \<Rightarrow> (worksheet \<Rightarrow> worksheet) \<Rightarrow> bool" where
  "from_row lo f \<longleftrightarrow> (\<forall>w c r. r < lo \<longrightarrow> cells (f w) (c, r) = cells w (c, r))"

section \<open>Digits and grouping\<close>

lemma below_ten: "m < 10 \<Longrightarrow> m \<in> {0, 1, 2, 3, 4, 5, 6, 7, 8, 9 :: nat}"
  by auto

lemma is_digit_digit_char: "is_digit (digit_char d)"
  using below_ten [of "d mod 10"] by (auto simp: is_digit_def digit_char_def)

lemma digit_val_digit_char: "digit_val (digit_char d) = d mod 10"
  using below_ten [of "d mod 10"] by (auto simp: digit_val_def digit_char_def)

lemma show_nat_digits: "show_nat n \<noteq> [] \<and> list_all is_digit (show_nat n)"
proof (induction n rule: show_nat.induct)
  case (1 n)
  show ?case
  proof (cases "n < 10")
    case True
    then show ?thesis by (subst show_nat.simps, subst show_nat.simps) (simp add: is_digit_digit_char)
  next
    case False
    with 1 show ?thesis by (subst show_nat.simps, subst show_nat.simps) (simp add: is_digit_digit_char)
  qed
qed

lemma read_nat_snoc: "read_nat (s @ [c]) = 10 * read_nat s + digit_val c"
  by (simp add: read_nat_def)

lemma read_show_nat: "read_nat (show_nat n) = n"
proof (induction n rule: show_nat.induct)
  case (1 n)
  show ?case
  proof (cases "n < 10")
    case True
    then show ?thesis by (subst show_nat.simps) (simp add: read_nat_def digit_val_digit_char)
  next
    case False
    with 1 show ?thesis
      by (subst show_nat.simps) (simp add: read_nat_snoc digit_val_digit_char)
  qed
qed

lemma comma_not_digit: "\<not> is_digit CHR '',''"
  by (simp add: is_digit_def)

lemma grouped_commas_rev: "ds \<noteq> [] \<Longrightarrow> list_all is_digit ds \<Longrightarrow> grouped_rev (commas_rev ds)"
  by (induction ds rule: commas_rev.induct) simp_all

lemma filter_commas_rev: "list_all is_digit ds \<Longrightarrow> filter is_digit (commas_rev ds) = ds"
  by (induction ds rule: commas_rev.induct) (simp_all add: comma_not_digit list_all_iff)

lemma thousands_grouped: "grouped_digits (thousands n)"
proof -
  have "rev (show_nat n) \<noteq> []" "list_all is_digit (rev (show_nat n))"
    using show_nat_digits [of n] by (simp_all add: list_all_iff)
  then have "grouped_rev (commas_rev (rev (show_nat n)))"
    by (rule grouped_commas_rev)
  then show ?thesis by (simp add: grouped_digits_def thousands_def)
qed

lemma thousands_value: "read_nat (filter is_digit (thousands n)) = n"
proof -
  have "list_all is_digit (rev (show_nat n))"
    using show_nat_digits [of n] by (simp add: list_all_iff)
  then have "filter is_digit (commas_rev (rev (show_nat n))) = rev (show_nat n)"
    by (rule filter_commas_rev)
  then have "filter is_digit (thousands n) = show_nat n"
    by (simp add: thousands_def rev_filter [symmetric])
  then show ?thesis by (simp add: read_show_nat)
qed


lemma show_nat_0: "show_nat 0 = ''0''"
  by (subst show_nat.simps) (simp add: digit_char_def)

lemma thousands_0: "thousands 0 = ''0''"
  by (simp add: thousands_def show_nat_0)

lemma round_half_even_0: "round_half_even 0 = 0"
  by (simp add: round_half_even_def)

lemma round_half_even_nonneg: "0 \<le> x \<Longrightarrow> 0 \<le> round_half_even x"
  by (auto simp: round_half_even_def Let_def)

section \<open>The delta\<close>

text \<open>
  C1 (as amended). The delta is exactly 0 whenever the previous value is 0, whatever the
  current value is, also a missing one; for numeric values with a non-zero previous value
  it is \<open>(current - previous) / \<bar>previous\<bar>\<close>; and it is missing exactly when the
  previous value is missing, or the current value is missing and the previous value is
  not 0. Both generators compute it the same way.
\<close>
theorem pct_change_zero_floor_and_missing:
  "u_calculate_pct_change current (Num 0) = Num 0
   \<and> calculate_percentage_change current (Num 0) = Num 0
   \<and> (p \<noteq> 0 \<longrightarrow>
        u_calculate_pct_change (Num c) (Num p) = Num ((c - p) / \<bar>p\<bar>)
        \<and> calculate_percentage_change (Num c) (Num p) = Num ((c - p) / \<bar>p\<bar>))
   \<and> (isna (u_calculate_pct_change current previous)
        \<longleftrightarrow> isna previous \<or> (isna current \<and> num_ne0 previous))
   \<and> (isna (calculate_percentage_change current previous)
        \<longleftrightarrow> isna previous \<or> (isna current \<and> num_ne0 previous))"
  by (cases current; cases previous)
     (simp_all add: u_calculate_pct_change_def calculate_percentage_change_def num_ne0_def)

theorem pct_change_zero_floor_and_missing_witness:
  "(90::real) \<noteq> 0
   \<and> u_calculate_pct_change (Num 100) (Num 90) = Num (1 / 9)
   \<and> calculate_percentage_change (Num 100) (Num 90) = Num (1 / 9)
   \<and> u_calculate_pct_change NaN (Num 0) = Num 0
   \<and> isna (u_calculate_pct_change NaN (Num 90))
   \<and> \<not> isna (u_calculate_pct_change NaN (Num 0))"
  using pct_change_zero_floor_and_missing [of NaN 90 100 "Num 90"]
    pct_change_zero_floor_and_missing [of NaN 90 100 "Num 0"]
  by (simp add: num_ne0_def)

text \<open>
  The claim C1 as stated fails: with a missing current value and a previous value of 0
  the delta is the number 0, not missing.
\<close>

theorem pct_change_missing_counterexample:
  "isna NaN \<and> \<not> isna (u_calculate_pct_change NaN (Num 0))
   \<and> \<not> isna (calculate_percentage_change NaN (Num 0))"
  by (simp add: u_calculate_pct_change_def calculate_percentage_change_def)

text \<open>
  C9. For every numeric value \<open>x\<close>, 0 included, the delta from \<open>x\<close> to \<open>x\<close> is 0.
\<close>
theorem pct_change_unchanged: "u_calculate_pct_change (Num x) (Num x) = Num 0"
  by (simp add: u_calculate_pct_change_def)

text \<open>
  C10. For numeric values with a non-zero previous value the delta is a number of the
  sign of \<open>current - previous\<close>: positive exactly when the value rose, negative exactly
  when it fell, also for a negative previous value.
\<close>
theorem pct_change_sign:
  "p \<noteq> 0 \<Longrightarrow>
     \<exists>d. u_calculate_pct_change (Num c) (Num p) = Num d
        \<and> calculate_percentage_change (Num c) (Num p) = Num d
        \<and> (0 < d \<longleftrightarrow> p < c) \<and> (d < 0 \<longleftrightarrow> c < p)"
  by (simp add: u_calculate_pct_change_def calculate_percentage_change_def
        zero_less_divide_iff divide_less_0_iff)

theorem pct_change_sign_witness:
  "(- 100 :: real) \<noteq> 0
   \<and> (\<exists>d. u_calculate_pct_change (Num (- 80)) (Num (- 100)) = Num d
          \<and> calculate_percentage_change (Num (- 80)) (Num (- 100)) = Num d
          \<and> (0 < d \<longleftrightarrow> (- 100 :: real) < - 80) \<and> (d < 0 \<longleftrightarrow> (- 80 :: real) < - 100))"
  using pct_change_sign [of "- 100" "- 80"] by simp

section \<open>Currency cells\<close>

text \<open>
  C7 (as amended). \<^verbatim>\<open>_format_currency\<close> gives exactly \<^verbatim>\<open>$0\<close> for zero and for a missing
  value, a dollar sign and the rounded amount in groups of three digits for a positive
  value, and the same amount between \<^verbatim>\<open>$(\<close> and \<^verbatim>\<open>)\<close> for a negative value.
  \<^verbatim>\<open>format_currency\<close> of the quarterly report agrees on zero and on positive values, and
  writes a negative value with a minus sign after the dollar sign.
\<close>
theorem currency_format_styles:
  "u_format_currency NaN = ''$0'' \<and> u_format_currency (Num 0) = ''$0''
   \<and> format_currency (Num 0) = ''$0''
   \<and> (0 < x \<longrightarrow>
        (\<exists>body. u_format_currency (Num x) = ''$'' @ body
           \<and> format_currency (Num x) = ''$'' @ body
           \<and> grouped_digits body
           \<and> read_nat (filter is_digit body) = nat (round_half_even x)))
   \<and> (y < 0 \<longrightarrow>
        (\<exists>body. u_format_currency (Num y) = ''$('' @ body @ '')''
           \<and> format_currency (Num y) = ''$-'' @ body
           \<and> grouped_digits body
           \<and> read_nat (filter is_digit body) = nat (round_half_even \<bar>y\<bar>)))"
  by (simp add: u_format_currency_def format_currency_def thousands_grouped thousands_value
        thousands_0 round_half_even_0)

theorem currency_format_styles_witness:
  "(0::real) < 2469 / 2 \<and> (- 6172 / 5 :: real) < 0
   \<and> (\<exists>body. u_format_currency (Num (2469 / 2)) = ''$'' @ body
          \<and> format_currency (Num (2469 / 2)) = ''$'' @ body
          \<and> grouped_digits body
          \<and> read_nat (filter is_digit body) = nat (round_half_even (2469 / 2)))
   \<and> (\<exists>body. u_format_currency (Num (- 6172 / 5)) = ''$('' @ body @ '')''
          \<and> format_currency (Num (- 6172 / 5)) = ''$-'' @ body
          \<and> grouped_digits body
          \<and> read_nat (filter is_digit body) = nat (round_half_even \<bar>- 6172 / 5\<bar>))
   \<and> u_format_currency (Num (2469 / 2)) = ''$1,234''
   \<and> u_format_currency (Num (- 6172 / 5)) = ''$(1,234)''"
proof -
  have pos: "(0::real) < 2469 / 2" and neg: "(- 6172 / 5 :: real) < 0"
    by simp_all
  have vals: "u_format_currency (Num (2469 / 2)) = ''$1,234''"
    "u_format_currency (Num (- 6172 / 5)) = ''$(1,234)''"
    by code_simp+
  show ?thesis
    using currency_format_styles [of "2469 / 2" "- 6172 / 5"] pos neg vals by blast
qed

text \<open>
  The claim C7 as stated fails on \<^verbatim>\<open>format_currency\<close>: a negative amount has a minus sign
  and no parentheses, and a missing value is not \<^verbatim>\<open>$0\<close>.
\<close>

theorem format_currency_negative_counterexample:
  "format_currency (Num (- 1234)) = ''$-1,234'' \<and> format_currency NaN = ''$nan''"
  by code_simp

section \<open>Cells of the worksheet\<close>

lemma cells_set_value:
  "cells (set_value ws a v) b =
     (if b = a then Some ((cell_at ws a)\<lparr>cvalue := Some v\<rparr>) else cells ws b)"
  by (simp add: set_value_def)

lemma cells_set_number_format:
  "cells (set_number_format ws a f) b =
     (if b = a then Some ((cell_at ws a)\<lparr>number_format := f\<rparr>) else cells ws b)"
  by (simp add: set_number_format_def)

lemma cells_set_font:
  "cells (set_font ws a f) b =
     (if b = a then Some ((cell_at ws a)\<lparr>cfont := Some f\<rparr>) else cells ws b)"
  by (simp add: set_font_def)

lemma cells_set_alignment:
  "cells (set_alignment ws a h) b =
     (if b = a then Some ((cell_at ws a)\<lparr>alignment := Some h\<rparr>) else cells ws b)"
  by (simp add: set_alignment_def)

lemma cells_merge_cells: "cells (merge_cells ws r) = cells ws"
  by (simp add: merge_cells_def)

lemma cells_set_width: "cells (set_width ws c w) = cells ws"
  by (simp add: set_width_def)

lemmas cells_simps = cells_set_value cells_set_number_format cells_set_font cells_set_alignment
  cells_merge_cells cells_set_width

lemma cell_at_set_value:
  "cell_at (set_value ws a v) b =
     (if b = a then (cell_at ws a)\<lparr>cvalue := Some v\<rparr> else cell_at ws b)"
  by (simp add: cell_at_def cells_set_value)

lemma cell_at_set_number_format:
  "cell_at (set_number_format ws a f) b =
     (if b = a then (cell_at ws a)\<lparr>number_format := f\<rparr> else cell_at ws b)"
  by (simp add: cell_at_def cells_set_number_format)

lemma cell_at_put_pct:
  "cell_at (put_pct ws a p) b =
     (if b = a then (cell_at ws a)\<lparr>cvalue := Some (Numeric p), number_format := pct_number_format p\<rparr>
      else cell_at ws b)"
  by (simp add: put_pct_def cell_at_set_value cell_at_set_number_format)

lemma add_data_body_three:
  "3 \<le> length r \<Longrightarrow>
   fst (add_data_body ws row (take 3 r) c1 c2 c3 c4 c5) =
     put_pct
       (put_pct
          (set_value
             (set_value
                (set_value ws (c1, row) (Text (u_format_currency (r ! 0))))
                (c3, row) (Text (u_format_currency (r ! 1))))
             (c5, row) (Text (u_format_currency (r ! 2))))
          (c2, row) (u_calculate_pct_change (r ! 0) (r ! 1)))
       (c4, row) (u_calculate_pct_change (r ! 1) (r ! 2))"
  by (simp add: add_data_body_def item_def Let_def)

lemma writes_slotD:
  "writes_slot step cols row cond upd \<Longrightarrow>
   cells (step w k) a =
     (if a = (cols ! k, row) \<and> cond k then Some (upd k (cell_at w a)) else cells w a)"
  unfolding writes_slot_def by blast

lemma foldl_upt_Suc: "foldl f w [0..<Suc n] = f (foldl f w [0..<n]) n"
  by simp

lemma loop_frame:
  assumes "writes_slot step cols row cond upd"
    and "\<forall>k<n. a \<noteq> (cols ! k, row)"
  shows "cells (foldl step ws [0..<n]) a = cells ws a"
  using assms(2)
proof (induction n)
  case 0
  then show ?case by simp
next
  case (Suc n)
  then have "cells (foldl step ws [0..<n]) a = cells ws a" and "a \<noteq> (cols ! n, row)"
    by simp_all
  then show ?case
    unfolding foldl_upt_Suc by (simp add: writes_slotD [OF assms(1)])
qed

lemma loop_slot:
  assumes "writes_slot step cols row cond upd"
    and "distinct cols" and "n \<le> length cols" and "i < n"
  shows "cells (foldl step ws [0..<n]) (cols ! i, row) =
           (if cond i then Some (upd i (cell_at ws (cols ! i, row))) else cells ws (cols ! i, row))"
  using assms(3,4)
proof (induction n)
  case 0
  then show ?case by simp
next
  case (Suc n)
  show ?case
  proof (cases "i = n")
    case True
    have "\<forall>k<n. (cols ! n, row) \<noteq> (cols ! k, row)"
      using Suc.prems assms(2) by (auto simp: nth_eq_iff_index_eq)
    then have fr: "cells (foldl step ws [0..<n]) (cols ! n, row) = cells ws (cols ! n, row)"
      by (rule loop_frame [OF assms(1)])
    then have "cell_at (foldl step ws [0..<n]) (cols ! n, row) = cell_at ws (cols ! n, row)"
      by (simp add: cell_at_def)
    with fr True show ?thesis
      unfolding foldl_upt_Suc by (simp add: writes_slotD [OF assms(1)])
  next
    case False
    with Suc.prems have "i < n" and "n < length cols" by simp_all
    then have ne: "cols ! i \<noteq> cols ! n"
      using assms(2) by (simp add: nth_eq_iff_index_eq)
    from Suc.IH \<open>i < n\<close> \<open>n < length cols\<close>
    have "cells (foldl step ws [0..<n]) (cols ! i, row) =
           (if cond i then Some (upd i (cell_at ws (cols ! i, row))) else cells ws (cols ! i, row))"
      by simp
    with ne show ?thesis
      unfolding foldl_upt_Suc by (simp add: writes_slotD [OF assms(1)])
  qed
qed

lemma current_ratio_writes:
  "writes_slot
     (\<lambda>w i. if num_ne0 (cl ! i)
             then set_value w (cols ! i, row) (Numeric (round2 (num_div (ca ! i) (cl ! i))))
             else w)
     cols row (\<lambda>i. num_ne0 (cl ! i))
     (\<lambda>i c. c\<lparr>cvalue := Some (Numeric (round2 (num_div (ca ! i) (cl ! i))))\<rparr>)"
  by (simp add: writes_slot_def cells_set_value)

lemma quick_ratio_writes:
  "writes_slot
     (\<lambda>w i. if num_ne0 (cl ! i)
             then set_value w (cols ! i, row)
                    (Numeric (round2 (num_div (num_sub (ca ! i) (iv ! i)) (cl ! i))))
             else w)
     cols row (\<lambda>i. num_ne0 (cl ! i))
     (\<lambda>i c. c\<lparr>cvalue := Some (Numeric (round2 (num_div (num_sub (ca ! i) (iv ! i)) (cl ! i))))\<rparr>)"
  by (simp add: writes_slot_def cells_set_value)

lemma gross_margin_writes:
  "writes_slot
     (\<lambda>w i. if num_ne0 (rv ! i)
             then set_number_format
                    (set_value w (cols ! i, row) (Numeric (num_div (gp ! i) (rv ! i))))
                    (cols ! i, row) ''0.0%''
             else w)
     cols row (\<lambda>i. num_ne0 (rv ! i))
     (\<lambda>i c. c\<lparr>cvalue := Some (Numeric (num_div (gp ! i) (rv ! i))), number_format := ''0.0%''\<rparr>)"
  by (simp add: writes_slot_def cells_set_value cells_set_number_format cell_at_set_value)

lemma net_cash_flow_writes:
  "writes_slot
     (\<lambda>w i. set_value w (cols ! i, row)
               (Text (u_format_currency (net_cash (opr ! i) (invs ! i) (fin ! i)))))
     cols row (\<lambda>i. True)
     (\<lambda>i c. c\<lparr>cvalue := Some (Text (u_format_currency (net_cash (opr ! i) (invs ! i) (fin ! i))))\<rparr>)"
  by (simp add: writes_slot_def cells_set_value)


section \<open>The format of a delta cell\<close>

text \<open>
  For a line item with three periods, the two delta cells that \<^verbatim>\<open>_add_quarterly_data\<close> and
  \<^verbatim>\<open>_add_annual_data\<close> write hold the deltas and the number format chosen for them.
\<close>

lemma delta_number_format:
  assumes "loc df field_name = Some r" and "3 \<le> length r"
  shows "cvalue (cell_at (u_add_quarterly_data ws row (Some df) field_name
                    ''E'' ''F'' ''G'' ''H'' ''I'' ''J'') (''F'', row))
           = Some (Numeric (u_calculate_pct_change (r ! 0) (r ! 1)))
       \<and> number_format (cell_at (u_add_quarterly_data ws row (Some df) field_name
                    ''E'' ''F'' ''G'' ''H'' ''I'' ''J'') (''F'', row))
           = (if num_lt (num_abs (u_calculate_pct_change (r ! 0) (r ! 1))) 10
              then ''0.00%'' else ''0.0'')
       \<and> cvalue (cell_at (u_add_quarterly_data ws row (Some df) field_name
                    ''E'' ''F'' ''G'' ''H'' ''I'' ''J'') (''H'', row))
           = Some (Numeric (u_calculate_pct_change (r ! 1) (r ! 2)))
       \<and> number_format (cell_at (u_add_quarterly_data ws row (Some df) field_name
                    ''E'' ''F'' ''G'' ''H'' ''I'' ''J'') (''H'', row))
           = (if num_lt (num_abs (u_calculate_pct_change (r ! 1) (r ! 2))) 10
              then ''0.00%'' else ''0.0'')
       \<and> cvalue (cell_at (u_add_annual_data ws row (Some df) field_name
                    ''K'' ''L'' ''M'' ''N'' ''O'') (''L'', row))
           = Some (Numeric (u_calculate_pct_change (r ! 0) (r ! 1)))
       \<and> number_format (cell_at (u_add_annual_data ws row (Some df) field_name
                    ''K'' ''L'' ''M'' ''N'' ''O'') (''L'', row))
           = (if num_lt (num_abs (u_calculate_pct_change (r ! 0) (r ! 1))) 10
              then ''0.00%'' else ''0.0'')
       \<and> cvalue (cell_at (u_add_annual_data ws row (Some df) field_name
                    ''K'' ''L'' ''M'' ''N'' ''O'') (''N'', row))
           = Some (Numeric (u_calculate_pct_change (r ! 1) (r ! 2)))
       \<and> number_format (cell_at (u_add_annual_data ws row (Some df) field_name
                    ''K'' ''L'' ''M'' ''N'' ''O'') (''N'', row))
           = (if num_lt (num_abs (u_calculate_pct_change (r ! 1) (r ! 2))) 10
              then ''0.00%'' else ''0.0'')"
  using assms
  by (simp add: u_add_quarterly_data_def u_add_annual_data_def add_data_body_three
        cell_at_put_pct pct_number_format_def)



lemma delta_number_format_example:
  "loc delta_example ''Total Assets'' = Some [Num (109999 / 1000), Num 10, Num (10 / 11)]
   \<and> 3 \<le> length [Num (109999 / 1000), Num 10, Num (10 / 11)]
   \<and> cvalue (cell_at (u_add_quarterly_data new_worksheet 13 (Some delta_example)
                ''Total Assets'' ''E'' ''F'' ''G'' ''H'' ''I'' ''J'') (''F'', 13))
        = Some (Numeric (Num (99999 / 10000)))
   \<and> number_format (cell_at (u_add_quarterly_data new_worksheet 13 (Some delta_example)
                ''Total Assets'' ''E'' ''F'' ''G'' ''H'' ''I'' ''J'') (''F'', 13)) = ''0.00%''
   \<and> cvalue (cell_at (u_add_quarterly_data new_worksheet 13 (Some delta_example)
                ''Total Assets'' ''E'' ''F'' ''G'' ''H'' ''I'' ''J'') (''H'', 13))
        = Some (Numeric (Num 10))
   \<and> number_format (cell_at (u_add_quarterly_data new_worksheet 13 (Some delta_example)
                ''Total Assets'' ''E'' ''F'' ''G'' ''H'' ''I'' ''J'') (''H'', 13)) = ''0.0''"
  using delta_number_format [of delta_example "''Total Assets''"
      "[Num (109999 / 1000), Num 10, Num (10 / 11)]" new_worksheet 13]
  by (simp add: delta_example_def u_calculate_pct_change_def)

lemma below_three: "k < 3 \<longleftrightarrow> k = 0 \<or> k = 1 \<or> k = (2::nat)"
  by auto

lemma value_cols_props: "distinct (value_cols g)" "length (value_cols g) = 3"
  by (cases g; simp)+

lemma value_cols_disjoint:
  "g \<noteq> g' \<Longrightarrow> i < 3 \<Longrightarrow> k < 3 \<Longrightarrow> (value_cols g ! i, row) \<noteq> (value_cols g' ! k, row)"
  by (cases g; cases g') (auto simp: below_three)

lemma cell_at_cong: "cells w a = cells w' a \<Longrightarrow> cell_at w a = cell_at w' a"
  by (simp add: cell_at_def)

lemma current_ratio_part_frame:
  assumes "\<forall>k<3. a \<noteq> (cols ! k, row)"
  shows "cells (current_ratio_part ws row t cols) a = cells ws a"
  using assms
  by (auto simp: current_ratio_part_def current_ratio_loop_def split: option.splits
        intro!: loop_frame [OF current_ratio_writes])

lemma current_ratio_part_slot:
  assumes "distinct cols" "length cols = 3"
    and "loc df ''Total Current Assets'' = Some ca"
    and "loc df ''Total Current Liabilities'' = Some cl"
    and "i < 3" "i < length ca" "i < length cl"
  shows "cells (current_ratio_part ws row (Some df) cols) (cols ! i, row) =
           (if num_ne0 (cl ! i)
            then Some ((cell_at ws (cols ! i, row))
                   \<lparr>cvalue := Some (Numeric (round2 (num_div (ca ! i) (cl ! i))))\<rparr>)
            else cells ws (cols ! i, row))"
proof -
  let ?n = "min (length (take 3 ca)) (length (take 3 cl))"
  have n: "?n \<le> length cols" "i < ?n" using assms by simp_all
  show ?thesis
    using loop_slot [OF current_ratio_writes assms(1) n, of "take 3 cl" row "take 3 ca" ws] assms
    by (simp add: current_ratio_part_def current_ratio_loop_def)
qed

lemma other_cols:
  "g \<noteq> g' \<Longrightarrow> i < 3 \<Longrightarrow> \<forall>k<3. (value_cols g ! i, row) \<noteq> (value_cols g' ! k, row)"
  by (cases g; cases g') (auto simp: below_three)

lemma two_parts_slot:
  fixes part :: "worksheet \<Rightarrow> dataframe option \<Rightarrow> string list \<Rightarrow> worksheet"
  assumes fr: "\<And>ws t cols a. \<forall>k<3. a \<noteq> (cols ! k, row) \<Longrightarrow> cells (part ws t cols) a = cells ws a"
    and sl: "\<And>ws. cells (part ws (tbl g) (value_cols g)) (value_cols g ! i, row) =
               (if c then Some (u (cell_at ws (value_cols g ! i, row)))
                else cells ws (value_cols g ! i, row))"
    and i: "i < 3"
  shows "cells (part (part ws (tbl Quarterly) (value_cols Quarterly)) (tbl Annual)
                  (value_cols Annual)) (value_cols g ! i, row) =
           (if c then Some (u (cell_at ws (value_cols g ! i, row)))
            else cells ws (value_cols g ! i, row))"
proof (cases g)
  case Quarterly
  let ?w = "part ws (tbl Quarterly) (value_cols Quarterly)"
  have "cells (part ?w (tbl Annual) (value_cols Annual)) (value_cols g ! i, row) =
        cells ?w (value_cols g ! i, row)"
    by (rule fr, rule other_cols) (simp_all add: Quarterly i)
  also have "\<dots> = (if c then Some (u (cell_at ws (value_cols g ! i, row)))
            else cells ws (value_cols g ! i, row))"
    using sl [of ws] unfolding Quarterly .
  finally show ?thesis .
next
  case Annual
  let ?w = "part ws (tbl Quarterly) (value_cols Quarterly)"
  have f: "cells ?w (value_cols g ! i, row) = cells ws (value_cols g ! i, row)"
    by (rule fr, rule other_cols) (simp_all add: Annual i)
  have "cells (part ?w (tbl Annual) (value_cols Annual)) (value_cols g ! i, row) =
          (if c then Some (u (cell_at ?w (value_cols g ! i, row)))
           else cells ?w (value_cols g ! i, row))"
    using sl [of ?w] unfolding Annual .
  then show ?thesis
    using f cell_at_cong [OF f] by simp
qed

lemma current_ratio_slot:
  assumes "balance_sheet_of self g = Some df"
    and "loc df ''Total Current Assets'' = Some ca"
    and "loc df ''Total Current Liabilities'' = Some cl"
    and "i < 3" "i < length ca" "i < length cl"
  shows "cells (u_calculate_current_ratio self ws row) (value_cols g ! i, row) =
           (if num_ne0 (cl ! i)
            then Some ((cell_at ws (value_cols g ! i, row))
                   \<lparr>cvalue := Some (Numeric (round2 (num_div (ca ! i) (cl ! i))))\<rparr>)
            else cells ws (value_cols g ! i, row))"
  unfolding u_calculate_current_ratio_def
    balance_sheet_of.simps [symmetric] value_cols.simps [symmetric]
  by (rule two_parts_slot [where part = "\<lambda>w t cols. current_ratio_part w row t cols"])
     (simp_all add: current_ratio_part_frame assms
        current_ratio_part_slot [OF value_cols_props [of g] assms(2-6)])

lemma quick_ratio_part_frame:
  assumes "\<forall>k<3. a \<noteq> (cols ! k, row)"
  shows "cells (quick_ratio_part ws row t cols) a = cells ws a"
  using assms
  by (auto simp: quick_ratio_part_def quick_ratio_loop_def Let_def split: option.splits
        intro!: loop_frame [OF quick_ratio_writes])

lemma quick_ratio_part_slot:
  assumes "distinct cols" "length cols = 3"
    and "loc df ''Total Current Assets'' = Some ca"
    and "loc df ''Total Current Liabilities'' = Some cl"
    and "i < 3" "i < length ca" "i < length cl" "i < length (row_or_zeros df ''Inventory'')"
  shows "cells (quick_ratio_part ws row (Some df) cols) (cols ! i, row) =
           (if num_ne0 (cl ! i)
            then Some ((cell_at ws (cols ! i, row))
                   \<lparr>cvalue := Some (Numeric (round2 (num_div
                        (num_sub (ca ! i) (row_or_zeros df ''Inventory'' ! i)) (cl ! i))))\<rparr>)
            else cells ws (cols ! i, row))"
proof -
  let ?iv = "row_or_zeros df ''Inventory''"
  let ?n = "min (length (take 3 ca)) (min (length ?iv) (length (take 3 cl)))"
  have n: "?n \<le> length cols" "i < ?n" using assms by simp_all
  show ?thesis
    using loop_slot [OF quick_ratio_writes assms(1) n, of "take 3 cl" row "take 3 ca" ?iv ws]
      assms
    by (simp add: quick_ratio_part_def quick_ratio_loop_def Let_def)
qed

lemma quick_ratio_slot:
  assumes "balance_sheet_of self g = Some df"
    and "loc df ''Total Current Assets'' = Some ca"
    and "loc df ''Total Current Liabilities'' = Some cl"
    and "i < 3" "i < length ca" "i < length cl" "i < length (row_or_zeros df ''Inventory'')"
  shows "cells (u_calculate_quick_ratio self ws row) (value_cols g ! i, row) =
           (if num_ne0 (cl ! i)
            then Some ((cell_at ws (value_cols g ! i, row))
                   \<lparr>cvalue := Some (Numeric (round2 (num_div
                        (num_sub (ca ! i) (row_or_zeros df ''Inventory'' ! i)) (cl ! i))))\<rparr>)
            else cells ws (value_cols g ! i, row))"
  unfolding u_calculate_quick_ratio_def
    balance_sheet_of.simps [symmetric] value_cols.simps [symmetric]
  by (rule two_parts_slot [where part = "\<lambda>w t cols. quick_ratio_part w row t cols"])
     (simp_all add: quick_ratio_part_frame assms
        quick_ratio_part_slot [OF value_cols_props [of g] assms(2-7)])

lemma gross_margin_part_frame:
  assumes "\<forall>k<3. a \<noteq> (cols ! k, row)"
  shows "cells (gross_margin_part ws row t cols) a = cells ws a"
  using assms
  by (auto simp: gross_margin_part_def gross_margin_loop_def split: option.splits
        intro!: loop_frame [OF gross_margin_writes])

lemma gross_margin_part_slot:
  assumes "distinct cols" "length cols = 3"
    and "loc df ''Total Revenue'' = Some rv"
    and "loc df ''Gross Profit'' = Some gp"
    and "i < 3" "i < length rv" "i < length gp"
  shows "cells (gross_margin_part ws row (Some df) cols) (cols ! i, row) =
           (if num_ne0 (rv ! i)
            then Some ((cell_at ws (cols ! i, row))
                   \<lparr>cvalue := Some (Numeric (num_div (gp ! i) (rv ! i))),
                     number_format := ''0.0%''\<rparr>)
            else cells ws (cols ! i, row))"
proof -
  let ?n = "min (length (take 3 rv)) (length (take 3 gp))"
  have n: "?n \<le> length cols" "i < ?n" using assms by simp_all
  show ?thesis
    using loop_slot [OF gross_margin_writes assms(1) n, of "take 3 rv" row "take 3 gp" ws] assms
    by (simp add: gross_margin_part_def gross_margin_loop_def)
qed

lemma gross_margin_slot:
  assumes "income_of self g = Some df"
    and "loc df ''Total Revenue'' = Some rv"
    and "loc df ''Gross Profit'' = Some gp"
    and "i < 3" "i < length rv" "i < length gp"
  shows "cells (u_calculate_gross_margin self ws row) (value_cols g ! i, row) =
           (if num_ne0 (rv ! i)
            then Some ((cell_at ws (value_cols g ! i, row))
                   \<lparr>cvalue := Some (Numeric (num_div (gp ! i) (rv ! i))),
                     number_format := ''0.0%''\<rparr>)
            else cells ws (value_cols g ! i, row))"
  unfolding u_calculate_gross_margin_def
    income_of.simps [symmetric] value_cols.simps [symmetric]
  by (rule two_parts_slot [where part = "\<lambda>w t cols. gross_margin_part w row t cols"])
     (simp_all add: gross_margin_part_frame assms
        gross_margin_part_slot [OF value_cols_props [of g] assms(2-6)])


lemma num_div_NaN: "num_div x NaN = NaN"
  by (cases x) simp_all

lemma round2_0: "round2 (Num 0) = Num 0"
  by (simp add: round_half_even_def)

lemma for_range3_Inr:
  "for_range3 f = Inr rs \<Longrightarrow> i < 3 \<Longrightarrow> f i = Inr (rs ! i)"
  by (auto simp: for_range3_def below_three split: sum.splits)

lemma item_Inr: "item xs i = Inr x \<longleftrightarrow> i < length xs \<and> x = xs ! i"
  by (auto simp: item_def)

lemma item_Inl: "item xs i = Inl e \<longleftrightarrow> \<not> i < length xs \<and> e = IndexError"
  by (auto simp: item_def)

lemma create_report_current_ratio_slot:
  assumes "create_report_current_ratio bsd = Inr rs" and "i < 3"
  shows "rs ! i = (if num_ne0 (total_current_liabilities bsd ! i)
                   then num_div (total_current_assets bsd ! i) (total_current_liabilities bsd ! i)
                   else Num 0)"
  using for_range3_Inr [OF assms [unfolded create_report_current_ratio_def]]
  by (auto simp: item_Inr item_Inl split: sum.splits if_splits)

lemma create_report_quick_ratio_slot:
  assumes "create_report_quick_ratio bsd = Inr rs" and "i < 3"
  shows "rs ! i = (if num_ne0 (total_current_liabilities bsd ! i)
                   then num_div (num_sub (total_current_assets bsd ! i) (inventory bsd ! i))
                          (total_current_liabilities bsd ! i)
                   else Num 0)"
proof -
  from assms(1) obtain qa where qa: "create_report_quick_assets bsd = Inr qa"
    and rs: "for_range3 (\<lambda>i.
          case item (total_current_liabilities bsd) i of Inl e \<Rightarrow> Inl e | Inr cl \<Rightarrow>
            if num_ne0 cl
            then (case item qa i of Inl e \<Rightarrow> Inl e | Inr q \<Rightarrow> Inr (num_div q cl))
            else Inr (Num 0)) = Inr rs"
    by (auto simp: create_report_quick_ratio_def split: sum.splits)
  have "qa ! i = num_sub (total_current_assets bsd ! i) (inventory bsd ! i)"
    using for_range3_Inr [OF qa [unfolded create_report_quick_assets_def] assms(2)]
    by (auto simp: item_Inr item_Inl split: sum.splits)
  moreover have "length qa = 3"
    using qa by (auto simp: create_report_quick_assets_def for_range3_def split: sum.splits)
  ultimately show ?thesis
    using for_range3_Inr [OF rs assms(2)] assms(2)
    by (auto simp: item_Inr item_Inl split: sum.splits if_splits)
qed

lemma ratio_cells_Inr:
  "ratio_cells r = Inr cs \<longleftrightarrow> (\<exists>rs. r = Inr rs \<and> cs = map round2 rs)"
  by (auto simp: ratio_cells_def split: sum.splits)

lemma for_range3_length: "for_range3 f = Inr rs \<Longrightarrow> length rs = 3"
  by (auto simp: for_range3_def split: sum.splits)

lemma create_report_ratio_lengths:
  "create_report_current_ratio bsd = Inr rs \<Longrightarrow> length rs = 3"
  "create_report_quick_ratio bsd = Inr qs \<Longrightarrow> length qs = 3"
  by (auto simp: create_report_current_ratio_def create_report_quick_ratio_def
        split: sum.splits dest: for_range3_length)

section \<open>Ratios with a zero or missing denominator\<close>

text \<open>
  C2 (as amended). In the quarterly-and-annual generator, the cell of a period slot of
  the Current Ratio and Quick Ratio rows is left as it was (no value is written) when the
  current liabilities of that slot are 0, and receives the missing value when they are
  missing, whatever the other slots of the row hold; the Gross Margin cell does the same
  on the revenue. In the quarterly report of financial_report_generator.py a missing
  denominator gives a missing ratio, and a denominator of 0 gives the number 0.
\<close>

theorem undefined_ratio_cells:
  assumes "i < 3" and "j < 3"
  shows
    "(balance_sheet_of self g = Some df
        \<and> loc df ''Total Current Assets'' = Some ca
        \<and> loc df ''Total Current Liabilities'' = Some cl
        \<and> i < length ca \<and> i < length cl \<and> cl ! i = Num 0
      \<longrightarrow> cells (u_calculate_current_ratio self ws row) (value_cols g ! i, row)
            = cells ws (value_cols g ! i, row))
     \<and> (balance_sheet_of self g = Some df
        \<and> loc df ''Total Current Assets'' = Some ca
        \<and> loc df ''Total Current Liabilities'' = Some cl
        \<and> j < length ca \<and> j < length cl \<and> cl ! j = NaN
      \<longrightarrow> cvalue (cell_at (u_calculate_current_ratio self ws row) (value_cols g ! j, row))
            = Some (Numeric NaN))
     \<and> (balance_sheet_of self g = Some df
        \<and> loc df ''Total Current Assets'' = Some ca
        \<and> loc df ''Total Current Liabilities'' = Some cl
        \<and> i < length ca \<and> i < length cl \<and> i < length (row_or_zeros df ''Inventory'')
        \<and> cl ! i = Num 0
      \<longrightarrow> cells (u_calculate_quick_ratio self ws row) (value_cols g ! i, row)
            = cells ws (value_cols g ! i, row))
     \<and> (balance_sheet_of self g = Some df
        \<and> loc df ''Total Current Assets'' = Some ca
        \<and> loc df ''Total Current Liabilities'' = Some cl
        \<and> j < length ca \<and> j < length cl \<and> j < length (row_or_zeros df ''Inventory'')
        \<and> cl ! j = NaN
      \<longrightarrow> cvalue (cell_at (u_calculate_quick_ratio self ws row) (value_cols g ! j, row))
            = Some (Numeric NaN))
     \<and> (income_of self g = Some idf
        \<and> loc idf ''Total Revenue'' = Some rv \<and> loc idf ''Gross Profit'' = Some gp
        \<and> i < length rv \<and> i < length gp \<and> rv ! i = Num 0
      \<longrightarrow> cells (u_calculate_gross_margin self ws row) (value_cols g ! i, row)
            = cells ws (value_cols g ! i, row))
     \<and> (income_of self g = Some idf
        \<and> loc idf ''Total Revenue'' = Some rv \<and> loc idf ''Gross Profit'' = Some gp
        \<and> j < length rv \<and> j < length gp \<and> rv ! j = NaN
      \<longrightarrow> cvalue (cell_at (u_calculate_gross_margin self ws row) (value_cols g ! j, row))
            = Some (Numeric NaN))
     \<and> (ratio_cells (create_report_current_ratio bsd) = Inr rs
        \<and> total_current_liabilities bsd ! i = Num 0 \<longrightarrow> rs ! i = Num 0)
     \<and> (ratio_cells (create_report_current_ratio bsd) = Inr rs
        \<and> total_current_liabilities bsd ! j = NaN \<longrightarrow> rs ! j = NaN)
     \<and> (ratio_cells (create_report_quick_ratio bsd) = Inr qs
        \<and> total_current_liabilities bsd ! i = Num 0 \<longrightarrow> qs ! i = Num 0)
     \<and> (ratio_cells (create_report_quick_ratio bsd) = Inr qs
        \<and> total_current_liabilities bsd ! j = NaN \<longrightarrow> qs ! j = NaN)"
proof (intro conjI impI)
  assume h: "balance_sheet_of self g = Some df
        \<and> loc df ''Total Current Assets'' = Some ca
        \<and> loc df ''Total Current Liabilities'' = Some cl
        \<and> i < length ca \<and> i < length cl \<and> cl ! i = Num 0"
  show "cells (u_calculate_current_ratio self ws row) (value_cols g ! i, row)
            = cells ws (value_cols g ! i, row)"
    using h assms by (simp add: current_ratio_slot num_ne0_def)
next
  assume h: "balance_sheet_of self g = Some df
        \<and> loc df ''Total Current Assets'' = Some ca
        \<and> loc df ''Total Current Liabilities'' = Some cl
        \<and> j < length ca \<and> j < length cl \<and> cl ! j = NaN"
  show "cvalue (cell_at (u_calculate_current_ratio self ws row) (value_cols g ! j, row))
            = Some (Numeric NaN)"
    using h assms by (simp add: cell_at_def current_ratio_slot num_ne0_def num_div_NaN)
next
  assume h: "balance_sheet_of self g = Some df
        \<and> loc df ''Total Current Assets'' = Some ca
        \<and> loc df ''Total Current Liabilities'' = Some cl
        \<and> i < length ca \<and> i < length cl \<and> i < length (row_or_zeros df ''Inventory'')
        \<and> cl ! i = Num 0"
  show "cells (u_calculate_quick_ratio self ws row) (value_cols g ! i, row)
            = cells ws (value_cols g ! i, row)"
    using h assms by (simp add: quick_ratio_slot num_ne0_def)
next
  assume h: "balance_sheet_of self g = Some df
        \<and> loc df ''Total Current Assets'' = Some ca
        \<and> loc df ''Total Current Liabilities'' = Some cl
        \<and> j < length ca \<and> j < length cl \<and> j < length (row_or_zeros df ''Inventory'')
        \<and> cl ! j = NaN"
  show "cvalue (cell_at (u_calculate_quick_ratio self ws row) (value_cols g ! j, row))
            = Some (Numeric NaN)"
    using h assms by (simp add: cell_at_def quick_ratio_slot num_ne0_def num_div_NaN)
next
  assume h: "income_of self g = Some idf
        \<and> loc idf ''Total Revenue'' = Some rv \<and> loc idf ''Gross Profit'' = Some gp
        \<and> i < length rv \<and> i < length gp \<and> rv ! i = Num 0"
  show "cells (u_calculate_gross_margin self ws row) (value_cols g ! i, row)
            = cells ws (value_cols g ! i, row)"
    using h assms by (simp add: gross_margin_slot num_ne0_def)
next
  assume h: "income_of self g = Some idf
        \<and> loc idf ''Total Revenue'' = Some rv \<and> loc idf ''Gross Profit'' = Some gp
        \<and> j < length rv \<and> j < length gp \<and> rv ! j = NaN"
  show "cvalue (cell_at (u_calculate_gross_margin self ws row) (value_cols g ! j, row))
            = Some (Numeric NaN)"
    using h assms by (simp add: cell_at_def gross_margin_slot num_ne0_def num_div_NaN)
next
  assume h: "ratio_cells (create_report_current_ratio bsd) = Inr rs
        \<and> total_current_liabilities bsd ! i = Num 0"
  then obtain rs' where r: "create_report_current_ratio bsd = Inr rs'" "rs = map round2 rs'"
    by (auto simp: ratio_cells_Inr)
  have "length rs' = 3" using r(1) by (simp add: create_report_ratio_lengths)
  then show "rs ! i = Num 0"
    using h assms r(2) create_report_current_ratio_slot [OF r(1)]
    by (simp add: num_ne0_def round_half_even_0)
next
  assume h: "ratio_cells (create_report_current_ratio bsd) = Inr rs
        \<and> total_current_liabilities bsd ! j = NaN"
  then obtain rs' where r: "create_report_current_ratio bsd = Inr rs'" "rs = map round2 rs'"
    by (auto simp: ratio_cells_Inr)
  have "length rs' = 3" using r(1) by (simp add: create_report_ratio_lengths)
  then show "rs ! j = NaN"
    using h assms r(2) create_report_current_ratio_slot [OF r(1)]
    by (simp add: num_ne0_def num_div_NaN)
next
  assume h: "ratio_cells (create_report_quick_ratio bsd) = Inr qs
        \<and> total_current_liabilities bsd ! i = Num 0"
  then obtain qs' where q: "create_report_quick_ratio bsd = Inr qs'" "qs = map round2 qs'"
    by (auto simp: ratio_cells_Inr)
  have "length qs' = 3" using q(1) by (simp add: create_report_ratio_lengths)
  then show "qs ! i = Num 0"
    using h assms q(2) create_report_quick_ratio_slot [OF q(1)]
    by (simp add: num_ne0_def round_half_even_0)
next
  assume h: "ratio_cells (create_report_quick_ratio bsd) = Inr qs
        \<and> total_current_liabilities bsd ! j = NaN"
  then obtain qs' where q: "create_report_quick_ratio bsd = Inr qs'" "qs = map round2 qs'"
    by (auto simp: ratio_cells_Inr)
  have "length qs' = 3" using q(1) by (simp add: create_report_ratio_lengths)
  then show "qs ! j = NaN"
    using h assms q(2) create_report_quick_ratio_slot [OF q(1)]
    by (simp add: num_ne0_def num_div_NaN)
qed

text \<open>
  The claim C2 as stated fails on \<^verbatim>\<open>create_report\<close>: with current liabilities of 0 the
  ratio cell holds the number 0.
\<close>

theorem zero_denominator_ratio_counterexample:
  "total_current_liabilities ratio_example_data ! 0 = Num 0
   \<and> ratio_cells (create_report_current_ratio ratio_example_data) = Inr [Num 0, NaN, Num 2]
   \<and> ratio_cells (create_report_quick_ratio ratio_example_data) = Inr [Num 0, NaN, Num 2]"
  by (simp add: ratio_example_data_def ratio_cells_def create_report_current_ratio_def
        create_report_quick_ratio_def create_report_quick_assets_def for_range3_def item_def
        num_ne0_def round_half_even_def)


theorem undefined_ratio_cells_witness:
  "(0::nat) < 3 \<and> (1::nat) < 3
   \<and> balance_sheet_of ratio_example_generator Quarterly = Some ratio_example
   \<and> income_of ratio_example_generator Quarterly = Some ratio_example
   \<and> loc ratio_example ''Total Current Assets'' = Some [Num 100, Num 90, Num 80]
   \<and> loc ratio_example ''Total Current Liabilities'' = Some [Num 0, NaN, Num 40]
   \<and> row_or_zeros ratio_example ''Inventory'' = [Num 0, Num 0, Num 0]
   \<and> loc ratio_example ''Total Revenue'' = Some [Num 0, NaN, Num 100]
   \<and> loc ratio_example ''Gross Profit'' = Some [Num 0, Num 40, Num 50]
   \<and> ratio_cells (create_report_current_ratio ratio_example_data) = Inr [Num 0, NaN, Num 2]
   \<and> ratio_cells (create_report_quick_ratio ratio_example_data) = Inr [Num 0, NaN, Num 2]
   \<and> cells (u_calculate_current_ratio ratio_example_generator new_worksheet 25) (''E'', 25)
        = None
   \<and> cvalue (cell_at (u_calculate_current_ratio ratio_example_generator new_worksheet 25)
        (''G'', 25)) = Some (Numeric NaN)
   \<and> cells (u_calculate_quick_ratio ratio_example_generator new_worksheet 26) (''E'', 26)
        = None
   \<and> cvalue (cell_at (u_calculate_quick_ratio ratio_example_generator new_worksheet 26)
        (''G'', 26)) = Some (Numeric NaN)
   \<and> cells (u_calculate_gross_margin ratio_example_generator new_worksheet 51) (''E'', 51)
        = None
   \<and> cvalue (cell_at (u_calculate_gross_margin ratio_example_generator new_worksheet 51)
        (''G'', 51)) = Some (Numeric NaN)
   \<and> balance_sheet_of zero_example_generator Quarterly = Some zero_example
   \<and> loc zero_example ''Total Current Assets'' = Some [Num 100, Num 90, Num 80]
   \<and> loc zero_example ''Total Current Liabilities'' = Some [Num 0, Num 40, Num 50]
   \<and> cells (u_calculate_current_ratio zero_example_generator new_worksheet 25) (''E'', 25)
        = None"
proof -
  have g: "balance_sheet_of ratio_example_generator Quarterly = Some ratio_example"
    "income_of ratio_example_generator Quarterly = Some ratio_example"
    "balance_sheet_of zero_example_generator Quarterly = Some zero_example"
    by (simp_all add: ratio_example_generator_def zero_example_generator_def)
  have rows: "loc ratio_example ''Total Current Assets'' = Some [Num 100, Num 90, Num 80]"
    "loc ratio_example ''Total Current Liabilities'' = Some [Num 0, NaN, Num 40]"
    "loc ratio_example ''Total Revenue'' = Some [Num 0, NaN, Num 100]"
    "loc ratio_example ''Gross Profit'' = Some [Num 0, Num 40, Num 50]"
    "loc zero_example ''Total Current Assets'' = Some [Num 100, Num 90, Num 80]"
    "loc zero_example ''Total Current Liabilities'' = Some [Num 0, Num 40, Num 50]"
    by (simp_all add: ratio_example_def zero_example_def)
  have iv: "row_or_zeros ratio_example ''Inventory'' = [Num 0, Num 0, Num 0]"
    by (simp add: row_or_zeros_def ratio_example_def)
  have fr: "ratio_cells (create_report_current_ratio ratio_example_data)
              = Inr [Num 0, NaN, Num 2]"
    "ratio_cells (create_report_quick_ratio ratio_example_data) = Inr [Num 0, NaN, Num 2]"
    by (simp_all add: ratio_example_data_def ratio_cells_def create_report_current_ratio_def
        create_report_quick_ratio_def create_report_quick_assets_def for_range3_def item_def
        num_ne0_def round_half_even_def)
  have empty: "cells new_worksheet a = None" for a
    by (simp add: new_worksheet_def)
  have "total_current_liabilities ratio_example_data ! 0 = Num 0"
    "total_current_liabilities ratio_example_data ! 1 = NaN"
    by (simp_all add: ratio_example_data_def)
  with g rows iv fr
    undefined_ratio_cells [of 0 1 ratio_example_generator Quarterly ratio_example
      "[Num 100, Num 90, Num 80]" "[Num 0, NaN, Num 40]" new_worksheet 25
      ratio_example "[Num 0, NaN, Num 100]" "[Num 0, Num 40, Num 50]"
      ratio_example_data "[Num 0, NaN, Num 2]" "[Num 0, NaN, Num 2]"]
    undefined_ratio_cells [of 0 1 ratio_example_generator Quarterly ratio_example
      "[Num 100, Num 90, Num 80]" "[Num 0, NaN, Num 40]" new_worksheet 26
      ratio_example "[Num 0, NaN, Num 100]" "[Num 0, Num 40, Num 50]"
      ratio_example_data "[Num 0, NaN, Num 2]" "[Num 0, NaN, Num 2]"]
    undefined_ratio_cells [of 0 1 ratio_example_generator Quarterly ratio_example
      "[Num 100, Num 90, Num 80]" "[Num 0, NaN, Num 40]" new_worksheet 51
      ratio_example "[Num 0, NaN, Num 100]" "[Num 0, Num 40, Num 50]"
      ratio_example_data "[Num 0, NaN, Num 2]" "[Num 0, NaN, Num 2]"]
    undefined_ratio_cells [of 0 1 zero_example_generator Quarterly zero_example
      "[Num 100, Num 90, Num 80]" "[Num 0, Num 40, Num 50]" new_worksheet 25
      ratio_example "[Num 0, NaN, Num 100]" "[Num 0, Num 40, Num 50]"
      ratio_example_data "[Num 0, NaN, Num 2]" "[Num 0, NaN, Num 2]"]
  show ?thesis
    by (simp add: empty)
qed

lemma add_data_body_short:
  "length vals < 3 \<Longrightarrow>
   add_data_body ws row vals c1 c2 c3 c4 c5 =
     (foldl (\<lambda>w (c, v). set_value w (c, row) (Text (u_format_currency v))) ws
        (zip [c1, c3, c5] vals), Some IndexError)"
proof -
  assume "length vals < 3"
  then consider "vals = []" | x where "vals = [x]" | x y where "vals = [x, y]"
    by (cases vals; cases "tl vals"; cases "tl (tl vals)") auto
  then show ?thesis
    by cases (simp_all add: add_data_body_def item_def)
qed

section \<open>Absent tables and absent line items\<close>

text \<open>
  C3 (as amended). \<^verbatim>\<open>_add_quarterly_data\<close> and \<^verbatim>\<open>_add_annual_data\<close> write no cell at all
  when the table is absent or the line item is not a key of it: they return before any
  write, so the row holds neither zeros nor any other value, and nothing is raised. The
  scraper of the quarterly report returns no data for an absent table, and three zeros
  for a line item that is not a key of a fetched table.
\<close>

theorem absent_item_writes_nothing:
  "u_add_quarterly_data ws row None field_name c1 c2 c3 c4 c5 c6 = ws
   \<and> u_add_annual_data ws row None field_name c1 c2 c3 c4 c5 = ws
   \<and> get_balance_sheet_data None = None
   \<and> get_cash_flow_data None = None
   \<and> (loc df field_name = None \<longrightarrow>
        u_add_quarterly_data ws row (Some df) field_name c1 c2 c3 c4 c5 c6 = ws
        \<and> u_add_annual_data ws row (Some df) field_name c1 c2 c3 c4 c5 = ws
        \<and> fetch_row df field_name = [Num 0, Num 0, Num 0])
   \<and> (columns bs \<noteq> [] \<and> loc bs ''Inventory'' = None \<longrightarrow>
        map_option inventory (get_balance_sheet_data (Some bs)) = Some [Num 0, Num 0, Num 0])
   \<and> (loc cf ''Operating Cash Flow'' = None \<longrightarrow>
        map_option operating_cash_flow (get_cash_flow_data (Some cf))
          = Some [Num 0, Num 0, Num 0])"
  by (simp add: u_add_quarterly_data_def u_add_annual_data_def get_balance_sheet_data_def
        get_cash_flow_data_def fetch_row_def)

theorem absent_item_writes_nothing_witness:
  "loc ratio_example ''Total Assets'' = None
   \<and> columns ratio_example \<noteq> [] \<and> loc ratio_example ''Inventory'' = None
   \<and> loc ratio_example ''Operating Cash Flow'' = None
   \<and> u_add_quarterly_data new_worksheet 13 (Some ratio_example) ''Total Assets''
        ''E'' ''F'' ''G'' ''H'' ''I'' ''J'' = new_worksheet
   \<and> u_add_annual_data new_worksheet 13 (Some ratio_example) ''Total Assets''
        ''K'' ''L'' ''M'' ''N'' ''O'' = new_worksheet
   \<and> fetch_row ratio_example ''Total Assets'' = [Num 0, Num 0, Num 0]
   \<and> map_option inventory (get_balance_sheet_data (Some ratio_example))
        = Some [Num 0, Num 0, Num 0]
   \<and> map_option operating_cash_flow (get_cash_flow_data (Some ratio_example))
        = Some [Num 0, Num 0, Num 0]"
proof -
  have h: "loc ratio_example ''Total Assets'' = None"
    "columns ratio_example \<noteq> []" "loc ratio_example ''Inventory'' = None"
    "loc ratio_example ''Operating Cash Flow'' = None"
    by (simp_all add: ratio_example_def)
  note q = absent_item_writes_nothing [of new_worksheet 13 "''Total Assets''"
        "''E''" "''F''" "''G''" "''H''" "''I''" "''J''" ratio_example ratio_example
        ratio_example]
  note a = absent_item_writes_nothing [of new_worksheet 13 "''Total Assets''"
        "''K''" "''L''" "''M''" "''N''" "''O''" "''J''" ratio_example ratio_example
        ratio_example]
  from q a h show ?thesis by blast
qed

text \<open>
  The claim C3 as stated fails on \<^verbatim>\<open>get_balance_sheet_data\<close>: a line item that is not a
  key of the table resolves to three zeros.
\<close>

theorem absent_item_zeros_counterexample:
  "loc ratio_example ''Inventory'' = None
   \<and> map_option inventory (get_balance_sheet_data (Some ratio_example))
       = Some [Num 0, Num 0, Num 0]"
  by (simp add: ratio_example_def get_balance_sheet_data_def fetch_row_def)

lemma net_cash_flow_part_frame:
  assumes "\<forall>k<3. a \<noteq> (cols ! k, row)"
  shows "cells (net_cash_flow_part ws row t cols) a = cells ws a"
proof (cases t)
  case None
  then show ?thesis by (simp add: net_cash_flow_part_def)
next
  case (Some df)
  let ?n = "min (length (row_or_zeros df ''Operating Cash Flow''))
              (min (length (row_or_zeros df ''Investing Cash Flow''))
                 (length (row_or_zeros df ''Financing Cash Flow'')))"
  have "length (row_or_zeros df ''Operating Cash Flow'') \<le> 3"
    by (simp add: row_or_zeros_def split: option.splits)
  then have "?n \<le> 3" by simp
  then have "k < 3" if "k < ?n" for k
    using that by (rule less_le_trans [rotated])
  with assms have "\<forall>k<?n. a \<noteq> (cols ! k, row)" by blast
  then show ?thesis
    unfolding Some net_cash_flow_part_def net_cash_flow_loop_def option.case
    by (rule loop_frame [OF net_cash_flow_writes])
qed

lemma net_cash_flow_part_slot:
  assumes "distinct cols" "length cols = 3"
    and "i < length (row_or_zeros df ''Operating Cash Flow'')"
    and "i < length (row_or_zeros df ''Investing Cash Flow'')"
    and "i < length (row_or_zeros df ''Financing Cash Flow'')"
  shows "cells (net_cash_flow_part ws row (Some df) cols) (cols ! i, row) =
           (if True
            then Some ((cell_at ws (cols ! i, row))
                   \<lparr>cvalue := Some (Text (u_format_currency
                       (net_cash (row_or_zeros df ''Operating Cash Flow'' ! i)
                          (row_or_zeros df ''Investing Cash Flow'' ! i)
                          (row_or_zeros df ''Financing Cash Flow'' ! i))))\<rparr>)
            else cells ws (cols ! i, row))"
proof -
  let ?o = "row_or_zeros df ''Operating Cash Flow''"
  let ?v = "row_or_zeros df ''Investing Cash Flow''"
  let ?f = "row_or_zeros df ''Financing Cash Flow''"
  let ?n = "min (length ?o) (min (length ?v) (length ?f))"
  have "length ?o \<le> 3"
    by (simp add: row_or_zeros_def split: option.splits)
  then have n: "?n \<le> length cols" "i < ?n" using assms by simp_all
  show ?thesis
    using loop_slot [OF net_cash_flow_writes assms(1) n, of row ?o ?v ?f ws]
    by (simp add: net_cash_flow_part_def net_cash_flow_loop_def)
qed

lemma net_cash_flow_slot:
  assumes "cashflow_of self g = Some df" and "i < 3"
    and "i < length (row_or_zeros df ''Operating Cash Flow'')"
    and "i < length (row_or_zeros df ''Investing Cash Flow'')"
    and "i < length (row_or_zeros df ''Financing Cash Flow'')"
  shows "cells (u_calculate_net_cash_flow self ws row) (value_cols g ! i, row) =
           (if True
            then Some ((cell_at ws (value_cols g ! i, row))
                   \<lparr>cvalue := Some (Text (u_format_currency
                       (net_cash (row_or_zeros df ''Operating Cash Flow'' ! i)
                          (row_or_zeros df ''Investing Cash Flow'' ! i)
                          (row_or_zeros df ''Financing Cash Flow'' ! i))))\<rparr>)
            else cells ws (value_cols g ! i, row))"
  unfolding u_calculate_net_cash_flow_def
    cashflow_of.simps [symmetric] value_cols.simps [symmetric]
  by (rule two_parts_slot [where part = "\<lambda>w t cols. net_cash_flow_part w row t cols"])
     (simp_all only: net_cash_flow_part_frame assms(1,2)
        net_cash_flow_part_slot [OF value_cols_props [of g] assms(3-5)])

lemma create_report_net_cash_flow_slot:
  assumes "create_report_net_cash_flow cfd = Inr ns" and "i < 3"
  shows "ns ! i = num_add (num_add (operating_cash_flow cfd ! i) (investing_cash_flow cfd ! i))
                    (financing_cash_flow cfd ! i)"
  using for_range3_Inr [OF assms [unfolded create_report_net_cash_flow_def]]
  by (auto simp: item_Inr item_Inl split: sum.splits)

lemma isna_num_add: "isna (num_add x y) \<longleftrightarrow> isna x \<or> isna y"
  by (cases x; cases y) simp_all

section \<open>Net cash flow\<close>

text \<open>
  C5 (as amended). Net cash flow at a period slot is the sum of the operating, investing
  and financing cash flows of that slot, where a component whose line item is not in the
  table counts as 0 at every slot. For three numbers it is their sum; it is missing
  exactly when one of the three values at the slot is missing. The cell of the slot holds
  the currency text of that sum.
\<close>
theorem net_cash_flow_sum:
  "net_cash (Num a) (Num b) (Num c) = Num (a + b + c)
   \<and> (isna (net_cash x y z) \<longleftrightarrow> isna x \<or> isna y \<or> isna z)
   \<and> (loc df name = None \<longrightarrow>
        row_or_zeros df name = [Num 0, Num 0, Num 0]
        \<and> fetch_row df name = [Num 0, Num 0, Num 0])
   \<and> (cashflow_of self g = Some cf \<and> i < 3
        \<and> i < length (row_or_zeros cf ''Operating Cash Flow'')
        \<and> i < length (row_or_zeros cf ''Investing Cash Flow'')
        \<and> i < length (row_or_zeros cf ''Financing Cash Flow'') \<longrightarrow>
        cvalue (cell_at (u_calculate_net_cash_flow self ws row) (value_cols g ! i, row)) =
          Some (Text (u_format_currency
            (net_cash (row_or_zeros cf ''Operating Cash Flow'' ! i)
               (row_or_zeros cf ''Investing Cash Flow'' ! i)
               (row_or_zeros cf ''Financing Cash Flow'' ! i)))))
   \<and> (create_report_net_cash_flow cfd = Inr ns \<and> k < 3 \<longrightarrow>
        ns ! k = net_cash (operating_cash_flow cfd ! k) (investing_cash_flow cfd ! k)
                   (financing_cash_flow cfd ! k))"
  by (simp add: net_cash_def isna_num_add row_or_zeros_def [of df] fetch_row_def
        cell_at_def net_cash_flow_slot create_report_net_cash_flow_slot)


lemma cash_example_rows:
  "row_or_zeros cash_example ''Operating Cash Flow'' = [NaN, Num 50, Num 60]"
  "row_or_zeros cash_example ''Investing Cash Flow'' = [Num (- 10), Num (- 10), Num (- 10)]"
  "row_or_zeros cash_example ''Financing Cash Flow'' = [Num 5, Num 5, Num 5]"
  by (simp_all add: row_or_zeros_def cash_example_def)

lemma cash_example_data_net:
  "create_report_net_cash_flow cash_example_data = Inr [NaN, Num 45, Num 55]"
  by (simp add: create_report_net_cash_flow_def cash_example_data_def for_range3_def item_def)

subsection \<open>The example of a missing operating cash flow\<close>

lemma cash_example_cells: "net_cash_flow_cells cash_example_data = Inr [''$nan'', ''$45'', ''$55'']"
  by (simp add: net_cash_flow_cells_def cash_example_data_net format_currency_def
        round_half_even_def thousands_def show_nat.simps digit_char_def)


text \<open>
  The claim C5 as stated fails: with a missing operating cash flow and the two other
  components present, the sum is missing; the cell then shows \<^verbatim>\<open>$0\<close> (and \<^verbatim>\<open>$nan\<close> in the
  quarterly report), not the sum of the two components that are present.
\<close>

theorem net_cash_flow_missing_counterexample:
  "\<not> isna (Num (- 10)) \<and> \<not> isna (Num 5) \<and> isna (net_cash NaN (Num (- 10)) (Num 5))
   \<and> cvalue (cell_at (u_calculate_net_cash_flow cash_example_generator new_worksheet 84)
        (''E'', 84)) = Some (Text ''$0'')
   \<and> create_report_net_cash_flow cash_example_data = Inr [NaN, Num 45, Num 55]
   \<and> net_cash_flow_cells cash_example_data = Inr [''$nan'', ''$45'', ''$55'']"
proof -
  have c: "cashflow_of cash_example_generator Quarterly = Some cash_example"
    by (simp add: cash_example_generator_def)
  have "cells (u_calculate_net_cash_flow cash_example_generator new_worksheet 84)
          (value_cols Quarterly ! 0, 84) =
        Some ((cell_at new_worksheet (value_cols Quarterly ! 0, 84))
               \<lparr>cvalue := Some (Text (u_format_currency (net_cash NaN (Num (- 10)) (Num 5))))\<rparr>)"
    using net_cash_flow_slot [OF c, of 0 new_worksheet 84] by (simp add: cash_example_rows)
  then have "cvalue (cell_at (u_calculate_net_cash_flow cash_example_generator new_worksheet 84)
        (''E'', 84)) = Some (Text ''$0'')"
    by (simp add: cell_at_def net_cash_def u_format_currency_def)
  then show ?thesis
    by (simp add: cash_example_data_net net_cash_def cash_example_cells)
qed


theorem net_cash_flow_sum_witness:
  "loc ratio_example ''Operating Cash Flow'' = None
   \<and> cashflow_of cash_example_generator Quarterly = Some cash_example \<and> (1::nat) < 3
   \<and> create_report_net_cash_flow cash_example_data = Inr [NaN, Num 45, Num 55]
   \<and> row_or_zeros ratio_example ''Operating Cash Flow'' = [Num 0, Num 0, Num 0]
   \<and> cvalue (cell_at (u_calculate_net_cash_flow cash_example_generator new_worksheet 84)
        (value_cols Quarterly ! 1, 84))
       = Some (Text (u_format_currency (net_cash (Num 50) (Num (- 10)) (Num 5))))
   \<and> net_cash (Num 50) (Num (- 10)) (Num 5) = Num (50 + (- 10) + 5)
   \<and> [NaN, Num 45, Num 55] ! 1 = net_cash (Num 50) (Num (- 10)) (Num 5)"
proof -
  have h: "loc ratio_example ''Operating Cash Flow'' = None"
    "cashflow_of cash_example_generator Quarterly = Some cash_example"
    by (simp_all add: ratio_example_def cash_example_generator_def)
  have len: "1 < length (row_or_zeros cash_example ''Operating Cash Flow'')"
    "1 < length (row_or_zeros cash_example ''Investing Cash Flow'')"
    "1 < length (row_or_zeros cash_example ''Financing Cash Flow'')"
    "(1::nat) < 3"
    by (simp_all add: cash_example_rows)
  have nth: "row_or_zeros cash_example ''Operating Cash Flow'' ! 1 = Num 50"
    "row_or_zeros cash_example ''Investing Cash Flow'' ! 1 = Num (- 10)"
    "row_or_zeros cash_example ''Financing Cash Flow'' ! 1 = Num 5"
    "operating_cash_flow cash_example_data ! 1 = Num 50"
    "investing_cash_flow cash_example_data ! 1 = Num (- 10)"
    "financing_cash_flow cash_example_data ! 1 = Num 5"
    by (simp_all add: cash_example_rows cash_example_data_def)
  note t = net_cash_flow_sum [of 50 "- 10" 5 NaN NaN NaN ratio_example "''Operating Cash Flow''"
        cash_example_generator Quarterly cash_example 1 new_worksheet 84
        cash_example_data "[NaN, Num 45, Num 55]" 1]
  from t h have "row_or_zeros ratio_example ''Operating Cash Flow'' = [Num 0, Num 0, Num 0]"
    by blast
  moreover from t h len
  have "cvalue (cell_at (u_calculate_net_cash_flow cash_example_generator new_worksheet 84)
        (value_cols Quarterly ! 1, 84))
       = Some (Text (u_format_currency (net_cash (Num 50) (Num (- 10)) (Num 5))))"
    unfolding nth [symmetric] by blast
  moreover from t have "net_cash (Num 50) (Num (- 10)) (Num 5) = Num (50 + (- 10) + 5)"
    by blast
  moreover from t cash_example_data_net len(4)
  have "[NaN, Num 45, Num 55] ! 1 = net_cash (Num 50) (Num (- 10)) (Num 5)"
    unfolding nth(4-6) [symmetric] by blast
  ultimately show ?thesis
    using h cash_example_data_net by simp
qed

section \<open>Writers\<close>

lemma agree_cells: "agree S w1 w2 \<Longrightarrow> a \<notin> S \<Longrightarrow> cells w1 a = cells w2 a"
  unfolding agree_def by blast

lemma agree_fields:
  "agree S w1 w2 \<Longrightarrow>
   title w1 = title w2 \<and> merged_cells w1 = merged_cells w2 \<and> column_widths w1 = column_widths w2"
  unfolding agree_def by blast

lemma agreeI:
  "(\<And>a. a \<notin> S \<Longrightarrow> cells w1 a = cells w2 a) \<Longrightarrow> title w1 = title w2 \<Longrightarrow>
   merged_cells w1 = merged_cells w2 \<Longrightarrow> column_widths w1 = column_widths w2 \<Longrightarrow>
   agree S w1 w2"
  unfolding agree_def by blast

lemma agree_cell_at: "agree S w1 w2 \<Longrightarrow> a \<notin> S \<Longrightarrow> cell_at w1 a = cell_at w2 a"
  by (simp add: agree_cells cell_at_def)

lemma writerI:
  assumes "\<And>S w1 w2. agree S w1 w2 \<Longrightarrow> agree S (f w1) (f w2)"
    and "\<And>w1 w2. covered w1 w2 \<Longrightarrow> covered (f w1) (f w2)"
    and "\<And>w. covered w (f w)"
  shows "writer f"
  using assms unfolding writer_def by blast

lemma writer_agree: "writer f \<Longrightarrow> agree S w1 w2 \<Longrightarrow> agree S (f w1) (f w2)"
  unfolding writer_def by blast

lemma writer_mono: "writer f \<Longrightarrow> covered w1 w2 \<Longrightarrow> covered (f w1) (f w2)"
  unfolding writer_def by blast

lemma writer_ext: "writer f \<Longrightarrow> covered w (f w)"
  unfolding writer_def by blast

lemma covered_refl: "covered w w"
  by (simp add: covered_def)

lemma covered_trans: "covered w1 w2 \<Longrightarrow> covered w2 w3 \<Longrightarrow> covered w1 w3"
  unfolding covered_def by blast

lemma writer_right: "writer f \<Longrightarrow> covered w1 w2 \<Longrightarrow> covered w1 (f w2)"
  by (erule covered_trans) (rule writer_ext)

lemma writer_id: "writer (\<lambda>w. w)"
  by (rule writerI) (simp_all add: covered_refl)

lemma writer_comp:
  assumes "writer f" and "writer g"
  shows "writer (\<lambda>w. g (f w))"
proof (rule writerI)
  fix S w1 w2
  assume "agree S w1 w2"
  then have "agree S (f w1) (f w2)" by (rule writer_agree [OF assms(1)])
  then show "agree S (g (f w1)) (g (f w2))" by (rule writer_agree [OF assms(2)])
next
  fix w1 w2
  assume "covered w1 w2"
  then have "covered (f w1) (f w2)" by (rule writer_mono [OF assms(1)])
  then show "covered (g (f w1)) (g (f w2))" by (rule writer_mono [OF assms(2)])
next
  fix w
  show "covered w (g (f w))"
    by (rule covered_trans [OF writer_ext [OF assms(1)] writer_ext [OF assms(2)]])
qed

lemma writer_cell_update:
  assumes c: "\<And>w b. cells (f w) b = (if b = a then Some (u (cell_at w a)) else cells w b)"
    and t: "\<And>w. title (f w) = title w"
    and m: "\<And>w. merged_cells (f w) = merged_cells w"
    and cw: "\<And>w. column_widths (f w) = column_widths w"
  shows "writer f"
proof (rule writerI)
  fix S w1 w2
  assume ag: "agree S w1 w2"
  have "cells (f w1) b = cells (f w2) b" if "b \<notin> S" for b
  proof (cases "b = a")
    case True
    with that ag have "cell_at w1 a = cell_at w2 a"
      by (simp add: agree_cell_at)
    with True show ?thesis by (simp add: c)
  next
    case False
    with agree_cells [OF ag that] show ?thesis by (simp add: c)
  qed
  then show "agree S (f w1) (f w2)"
    using agree_fields [OF ag] by (intro agreeI) (simp_all add: t m cw)
next
  fix w1 w2
  assume "covered w1 w2"
  then show "covered (f w1) (f w2)"
    unfolding covered_def dom_def by (auto simp: c)
next
  fix w
  show "covered w (f w)"
    unfolding covered_def dom_def by (auto simp: c)
qed

lemma writer_set_value: "writer (\<lambda>w. set_value w a v)"
  by (rule writer_cell_update [where a = a and u = "\<lambda>c. c\<lparr>cvalue := Some v\<rparr>"])
     (simp_all add: set_value_def)

lemma writer_set_number_format: "writer (\<lambda>w. set_number_format w a v)"
  by (rule writer_cell_update [where a = a and u = "\<lambda>c. c\<lparr>number_format := v\<rparr>"])
     (simp_all add: set_number_format_def)

lemma writer_set_font: "writer (\<lambda>w. set_font w a v)"
  by (rule writer_cell_update [where a = a and u = "\<lambda>c. c\<lparr>cfont := Some v\<rparr>"])
     (simp_all add: set_font_def)

lemma writer_set_alignment: "writer (\<lambda>w. set_alignment w a v)"
  by (rule writer_cell_update [where a = a and u = "\<lambda>c. c\<lparr>alignment := Some v\<rparr>"])
     (simp_all add: set_alignment_def)

lemma writer_sheet_update:
  assumes c: "\<And>w. cells (f w) = cells w"
    and eq: "\<And>w1 w2. title w1 = title w2 \<and> merged_cells w1 = merged_cells w2
                \<and> column_widths w1 = column_widths w2 \<Longrightarrow>
              title (f w1) = title (f w2) \<and> merged_cells (f w1) = merged_cells (f w2)
                \<and> column_widths (f w1) = column_widths (f w2)"
  shows "writer f"
proof (rule writerI)
  fix S w1 w2
  assume ag: "agree S w1 w2"
  show "agree S (f w1) (f w2)"
    using eq [OF agree_fields [OF ag]] agree_cells [OF ag] by (intro agreeI) (simp_all add: c)
qed (simp_all add: covered_def c)

lemma writer_merge_cells: "writer (\<lambda>w. merge_cells w r)"
  by (rule writer_sheet_update) (simp_all add: merge_cells_def)

lemma writer_set_width: "writer (\<lambda>w. set_width w c n)"
  by (rule writer_sheet_update) (simp_all add: set_width_def)

lemma writer_set_title: "writer (\<lambda>w. w\<lparr>title := t\<rparr>)"
  by (rule writer_sheet_update) simp_all

lemma writer_if: "(c \<Longrightarrow> writer f) \<Longrightarrow> (\<not> c \<Longrightarrow> writer g) \<Longrightarrow> writer (\<lambda>w. if c then f w else g w)"
  by (cases c) simp_all

lemma writer_case_option:
  "(t = None \<Longrightarrow> writer f) \<Longrightarrow> (\<And>x. t = Some x \<Longrightarrow> writer (g x)) \<Longrightarrow>
   writer (\<lambda>w. case t of None \<Rightarrow> f w | Some x \<Rightarrow> g x w)"
  by (cases t) simp_all

lemma writer_foldl:
  "(\<And>x. writer (\<lambda>w. step w x)) \<Longrightarrow> writer (\<lambda>w. foldl step w xs)"
proof (induction xs rule: rev_induct)
  case Nil
  show ?case by (simp add: writer_id)
next
  case (snoc x xs)
  have "writer (\<lambda>w. step (foldl step w xs) x)"
    by (rule writer_comp [where g = "\<lambda>w. step w x"]) (rule snoc.IH snoc.prems)+
  then show ?case by simp
qed


lemma writer_after: "writer g \<Longrightarrow> writer f \<Longrightarrow> writer (\<lambda>w. g (f w))"
  by (rule writer_comp)

lemmas writer_prims =
  writer_id
  writer_after [OF writer_set_value] writer_after [OF writer_set_number_format]
  writer_after [OF writer_set_font] writer_after [OF writer_set_alignment]
  writer_after [OF writer_merge_cells] writer_after [OF writer_set_width]
  writer_after [OF writer_set_title]
  writer_if writer_case_option

lemma writer_foldl_after:
  "(\<And>x. writer (\<lambda>w. step w x)) \<Longrightarrow> writer f \<Longrightarrow> writer (\<lambda>w. foldl step (f w) xs)"
  by (rule writer_after [OF writer_foldl])

lemma writer_put_pct: "writer (\<lambda>w. put_pct w a p)"
  unfolding put_pct_def by (intro writer_prims)

lemma add_data_body_full:
  "3 \<le> length vals \<Longrightarrow>
   add_data_body ws row vals c1 c2 c3 c4 c5 =
     (put_pct
        (put_pct
           (set_value
              (set_value
                 (set_value ws (c1, row) (Text (u_format_currency (vals ! 0))))
                 (c3, row) (Text (u_format_currency (vals ! 1))))
              (c5, row) (Text (u_format_currency (vals ! 2))))
           (c2, row) (u_calculate_pct_change (vals ! 0) (vals ! 1)))
        (c4, row) (u_calculate_pct_change (vals ! 1) (vals ! 2)), None)"
  by (auto simp: add_data_body_def item_def Let_def)

lemma writer_add_data_body: "writer (\<lambda>w. fst (add_data_body w row vals c1 c2 c3 c4 c5))"
proof (cases "length vals < 3")
  case True
  have "writer (\<lambda>w. foldl (\<lambda>w (c, v). set_value w (c, row) (Text (u_format_currency v))) w
                  (zip [c1, c3, c5] vals))"
    by (rule writer_foldl) (simp add: case_prod_beta writer_set_value)
  with True show ?thesis by (simp add: add_data_body_short)
next
  case False
  then have "3 \<le> length vals" by simp
  then have eq: "(\<lambda>w. fst (add_data_body w row vals c1 c2 c3 c4 c5)) =
      (\<lambda>w. put_pct
        (put_pct
           (set_value
              (set_value
                 (set_value w (c1, row) (Text (u_format_currency (vals ! 0))))
                 (c3, row) (Text (u_format_currency (vals ! 1))))
              (c5, row) (Text (u_format_currency (vals ! 2))))
           (c2, row) (u_calculate_pct_change (vals ! 0) (vals ! 1)))
        (c4, row) (u_calculate_pct_change (vals ! 1) (vals ! 2)))"
    by (simp add: add_data_body_full)
  show ?thesis
    unfolding eq by (intro writer_prims writer_after [OF writer_put_pct])
qed

lemma writer_add_quarterly_data:
  "writer (\<lambda>w. u_add_quarterly_data w row t f c1 c2 c3 c4 c5 c6)"
  unfolding u_add_quarterly_data_def
  by (intro writer_prims writer_add_data_body)

lemma writer_add_annual_data:
  "writer (\<lambda>w. u_add_annual_data w row t f c1 c2 c3 c4 c5)"
  unfolding u_add_annual_data_def
  by (intro writer_prims writer_add_data_body)

lemma writer_add_both: "writer (\<lambda>w. add_both w row q a f)"
  unfolding add_both_def
  by (intro writer_after [OF writer_add_annual_data] writer_add_quarterly_data)

lemma writer_working_capital: "writer (\<lambda>w. u_calculate_working_capital self w row)"
  unfolding u_calculate_working_capital_def working_capital_part_def
    working_capital_loop_def Let_def
  by (intro writer_prims writer_foldl_after writer_after [OF writer_put_pct])

lemma writer_current_ratio: "writer (\<lambda>w. u_calculate_current_ratio self w row)"
  unfolding u_calculate_current_ratio_def current_ratio_part_def current_ratio_loop_def
  by (intro writer_prims writer_foldl_after)

lemma writer_quick_ratio: "writer (\<lambda>w. u_calculate_quick_ratio self w row)"
  unfolding u_calculate_quick_ratio_def quick_ratio_part_def quick_ratio_loop_def Let_def
  by (intro writer_prims writer_foldl_after)

lemma writer_gross_margin: "writer (\<lambda>w. u_calculate_gross_margin self w row)"
  unfolding u_calculate_gross_margin_def gross_margin_part_def gross_margin_loop_def
  by (intro writer_prims writer_foldl_after)

lemma writer_net_cash_flow: "writer (\<lambda>w. u_calculate_net_cash_flow self w row)"
  unfolding u_calculate_net_cash_flow_def net_cash_flow_part_def net_cash_flow_loop_def
  by (intro writer_prims writer_foldl_after)


lemmas writer_data =
  writer_after [OF writer_add_both] writer_after [OF writer_working_capital]
  writer_after [OF writer_current_ratio] writer_after [OF writer_quick_ratio]
  writer_after [OF writer_gross_margin] writer_after [OF writer_net_cash_flow]

lemma snd_balance_sheet_items_loop:
  "snd (balance_sheet_items_loop self ws row items) = row + length items"
  by (induction items arbitrary: ws row) (auto simp: Let_def)

lemma snd_income_items_loop:
  "snd (income_items_loop self ws row items) = row + length items"
  by (induction items arbitrary: ws row) (auto simp: Let_def)

lemma snd_field_items_loop:
  "snd (field_items_loop q a ws row items) = row + length items"
  by (induction items arbitrary: ws row) (auto simp: Let_def)

lemma writer_balance_sheet_items_loop:
  "writer (\<lambda>w. fst (balance_sheet_items_loop self w row items))"
proof (induction items arbitrary: row)
  case Nil
  show ?case by (simp add: writer_id)
next
  case (Cons it items)
  obtain item_name field_name where it: "it = (item_name, field_name)"
    by (cases it)
  show ?case
    unfolding it balance_sheet_items_loop.simps Let_def
    by (intro writer_after [OF Cons.IH] writer_prims writer_data)
qed

lemma writer_income_items_loop:
  "writer (\<lambda>w. fst (income_items_loop self w row items))"
proof (induction items arbitrary: row)
  case Nil
  show ?case by (simp add: writer_id)
next
  case (Cons it items)
  obtain item_name field_name where it: "it = (item_name, field_name)"
    by (cases it)
  show ?case
    unfolding it income_items_loop.simps Let_def
    by (intro writer_after [OF Cons.IH] writer_prims writer_data)
qed

lemma writer_field_items_loop:
  "writer (\<lambda>w. fst (field_items_loop q a w row items))"
proof (induction items arbitrary: row)
  case Nil
  show ?case by (simp add: writer_id)
next
  case (Cons it items)
  obtain item_name field_name where it: "it = (item_name, field_name)"
    by (cases it)
  show ?case
    unfolding it field_items_loop.simps Let_def
    by (intro writer_after [OF Cons.IH] writer_prims writer_data)
qed

lemmas writer_loops =
  writer_after [OF writer_balance_sheet_items_loop]
  writer_after [OF writer_income_items_loop]
  writer_after [OF writer_field_items_loop]

lemma writer_add_balance_sheet_items:
  "writer (\<lambda>w. fst (u_add_balance_sheet_items self w start_row))"
  unfolding u_add_balance_sheet_items_def Let_def case_prod_beta fst_conv
    snd_balance_sheet_items_loop snd_field_items_loop
  by (intro writer_prims writer_data writer_loops)

lemma writer_add_income_statement_items:
  "writer (\<lambda>w. fst (u_add_income_statement_items self w start_row))"
  unfolding u_add_income_statement_items_def
  by (rule writer_income_items_loop)

lemma writer_add_cash_flow_items:
  "writer (\<lambda>w. fst (u_add_cash_flow_items self w start_row))"
  unfolding u_add_cash_flow_items_def Let_def case_prod_beta fst_conv
    snd_field_items_loop
  by (intro writer_prims writer_data writer_loops)

lemma writer_fy_headers: "writer (\<lambda>w. fy_headers w row y)"
  unfolding fy_headers_def by (intro writer_prims)

lemma writer_date_headers: "writer (\<lambda>w. date_headers w t c1 c2 c3)"
  unfolding date_headers_def by (intro writer_prims)

lemma writer_set_column_widths: "writer set_column_widths"
proof -
  have "writer (\<lambda>w. set_column_widths w)"
    unfolding set_column_widths_def
    by (rule writer_foldl) (simp add: case_prod_beta writer_set_width)
  then show ?thesis .
qed

lemma writer_report_title: "writer report_title"
proof -
  have "writer (\<lambda>w. report_title w)"
    unfolding report_title_def by (intro writer_prims)
  then show ?thesis .
qed

lemma writer_balance_sheet_headers: "writer balance_sheet_headers"
proof -
  have "writer (\<lambda>w. balance_sheet_headers w)"
    unfolding balance_sheet_headers_def Let_def by (intro writer_prims)
  then show ?thesis .
qed

lemma writer_assets_header: "writer assets_header"
proof -
  have "writer (\<lambda>w. assets_header w)"
    unfolding assets_header_def Let_def by (intro writer_foldl_after writer_prims)
  then show ?thesis .
qed

lemma writer_section_header: "writer (\<lambda>w. section_header w row label)"
  unfolding section_header_def by (intro writer_prims)


lemma no_data_fields:
  "quarterly_balance_sheet no_data = None" "annual_balance_sheet no_data = None"
  "quarterly_income no_data = None" "annual_income no_data = None"
  "quarterly_cashflow no_data = None" "annual_cashflow no_data = None"
  by (simp_all add: no_data_def)

lemma add_both_None: "add_both w row None None f = w"
  by (simp add: add_both_def u_add_quarterly_data_def u_add_annual_data_def)

lemma no_data_metrics:
  "u_calculate_working_capital no_data w row = w"
  "u_calculate_current_ratio no_data w row = w"
  "u_calculate_quick_ratio no_data w row = w"
  "u_calculate_gross_margin no_data w row = w"
  "u_calculate_net_cash_flow no_data w row = w"
  by (simp_all add: no_data_fields u_calculate_working_capital_def working_capital_part_def
      u_calculate_current_ratio_def current_ratio_part_def
      u_calculate_quick_ratio_def quick_ratio_part_def
      u_calculate_gross_margin_def gross_margin_part_def
      u_calculate_net_cash_flow_def net_cash_flow_part_def)

lemma date_headers_None: "date_headers w None c1 c2 c3 = w"
  by (simp add: date_headers_def)

lemma covered_label_step:
  assumes "covered w1 w2" and "writer D"
  shows "covered (set_value w1 a v) (D (set_value w2 a v))"
  by (rule writer_right [OF assms(2)]) (rule writer_mono [OF writer_set_value assms(1)])

lemma covered_balance_sheet_items_loop:
  "covered w1 w2 \<Longrightarrow>
   covered (fst (balance_sheet_items_loop no_data w1 row items))
     (fst (balance_sheet_items_loop self w2 row items))"
proof (induction items arbitrary: w1 w2 row)
  case Nil
  then show ?case by simp
next
  case (Cons it items)
  obtain item_name field_name where it: "it = (item_name, field_name)"
    by (cases it)
  define D where "D = (\<lambda>ws1.
     case field_name of
       None \<Rightarrow> (if item_name = ''Working Capital''
                 then u_calculate_working_capital self ws1 row else ws1)
     | Some f \<Rightarrow>
         if f \<noteq> [] \<and> f \<noteq> ''Working Capital''
         then add_both ws1 row (quarterly_balance_sheet self) (annual_balance_sheet self) f
         else (if item_name = ''Working Capital''
               then u_calculate_working_capital self ws1 row else ws1))"
  have wD: "writer D"
    unfolding D_def by (intro writer_prims writer_data)
  have L: "balance_sheet_items_loop no_data w1 row (it # items) =
           balance_sheet_items_loop no_data (set_value w1 (''C'', row) (Text item_name))
             (row + 1) items"
    by (simp add: it Let_def no_data_metrics no_data_fields add_both_None split: option.splits)
  have R: "balance_sheet_items_loop self w2 row (it # items) =
           balance_sheet_items_loop self (D (set_value w2 (''C'', row) (Text item_name)))
             (row + 1) items"
    by (simp add: it Let_def D_def)
  show ?case
    unfolding L R by (rule Cons.IH) (rule covered_label_step [OF Cons.prems wD])
qed

lemma covered_income_items_loop:
  "covered w1 w2 \<Longrightarrow>
   covered (fst (income_items_loop no_data w1 row items))
     (fst (income_items_loop self w2 row items))"
proof (induction items arbitrary: w1 w2 row)
  case Nil
  then show ?case by simp
next
  case (Cons it items)
  obtain item_name field_name where it: "it = (item_name, field_name)"
    by (cases it)
  define D where "D = (\<lambda>ws1.
     case field_name of
       None \<Rightarrow> (if item_name = ''Gross Margin''
                 then u_calculate_gross_margin self ws1 row else ws1)
     | Some f \<Rightarrow>
         if f \<noteq> []
         then add_both ws1 row (quarterly_income self) (annual_income self) f
         else (if item_name = ''Gross Margin''
               then u_calculate_gross_margin self ws1 row else ws1))"
  have wD: "writer D"
    unfolding D_def by (intro writer_prims writer_data)
  have L: "income_items_loop no_data w1 row (it # items) =
           income_items_loop no_data (set_value w1 (''C'', row) (Text item_name))
             (row + 1) items"
    by (simp add: it Let_def no_data_metrics no_data_fields add_both_None split: option.splits)
  have R: "income_items_loop self w2 row (it # items) =
           income_items_loop self (D (set_value w2 (''C'', row) (Text item_name)))
             (row + 1) items"
    by (simp add: it Let_def D_def)
  show ?case
    unfolding L R by (rule Cons.IH) (rule covered_label_step [OF Cons.prems wD])
qed

lemma covered_field_items_loop:
  "covered w1 w2 \<Longrightarrow>
   covered (fst (field_items_loop None None w1 row items))
     (fst (field_items_loop q a w2 row items))"
proof (induction items arbitrary: w1 w2 row)
  case Nil
  then show ?case by simp
next
  case (Cons it items)
  obtain item_name field_name where it: "it = (item_name, field_name)"
    by (cases it)
  define D where "D = (\<lambda>ws1.
     case field_name of
       None \<Rightarrow> ws1
     | Some f \<Rightarrow> if f \<noteq> [] then add_both ws1 row q a f else ws1)"
  have wD: "writer D"
    unfolding D_def by (intro writer_prims writer_data)
  have L: "field_items_loop None None w1 row (it # items) =
           field_items_loop None None (set_value w1 (''C'', row) (Text item_name))
             (row + 1) items"
    by (simp add: it Let_def add_both_None split: option.splits)
  have R: "field_items_loop q a w2 row (it # items) =
           field_items_loop q a (D (set_value w2 (''C'', row) (Text item_name)))
             (row + 1) items"
    by (simp add: it Let_def D_def)
  show ?case
    unfolding L R by (rule Cons.IH) (rule covered_label_step [OF Cons.prems wD])
qed

lemmas covered_steps =
  covered_refl
  writer_mono [OF writer_set_value] writer_mono [OF writer_set_font]
  writer_right [OF writer_add_both] writer_right [OF writer_current_ratio]
  writer_right [OF writer_quick_ratio] writer_right [OF writer_net_cash_flow]
  writer_right [OF writer_date_headers]
  covered_balance_sheet_items_loop covered_income_items_loop covered_field_items_loop
  writer_mono [OF writer_fy_headers] writer_mono [OF writer_section_header]
  writer_mono [OF writer_assets_header] writer_mono [OF writer_balance_sheet_headers]
  writer_mono [OF writer_set_column_widths]

lemma covered_add_balance_sheet_items:
  "covered w1 w2 \<Longrightarrow>
   covered (fst (u_add_balance_sheet_items no_data w1 start_row))
     (fst (u_add_balance_sheet_items self w2 start_row))"
  unfolding u_add_balance_sheet_items_def Let_def case_prod_beta fst_conv
    snd_balance_sheet_items_loop snd_field_items_loop no_data_metrics no_data_fields
  by (intro covered_steps)

lemma covered_add_income_statement_items:
  "covered w1 w2 \<Longrightarrow>
   covered (fst (u_add_income_statement_items no_data w1 start_row))
     (fst (u_add_income_statement_items self w2 start_row))"
  unfolding u_add_income_statement_items_def by (rule covered_income_items_loop)

lemma covered_add_cash_flow_items:
  "covered w1 w2 \<Longrightarrow>
   covered (fst (u_add_cash_flow_items no_data w1 start_row))
     (fst (u_add_cash_flow_items self w2 start_row))"
  unfolding u_add_cash_flow_items_def Let_def case_prod_beta fst_conv
    snd_field_items_loop no_data_metrics no_data_fields add_both_None
  by (intro covered_steps)

lemma covered_report:
  "covered (create_excel_report year no_data) (create_excel_report year self)"
  unfolding create_excel_report_def Let_def no_data_fields date_headers_None
  by (intro covered_steps covered_add_balance_sheet_items covered_add_income_statement_items
        covered_add_cash_flow_items)

lemma fy_headers_frame:
  "a \<notin> {(''K'', row), (''M'', row), (''O'', row)} \<Longrightarrow> cells (fy_headers w row y) a = cells w a"
  by (simp add: fy_headers_def cells_set_value)

lemma fy_headers_fields:
  "title (fy_headers w row y) = title w" "merged_cells (fy_headers w row y) = merged_cells w"
  "column_widths (fy_headers w row y) = column_widths w"
  by (simp_all add: fy_headers_def set_value_def)

lemma agree_fy_headers:
  assumes "agree S w1 w2" and "{(''K'', row), (''M'', row), (''O'', row)} \<subseteq> S"
  shows "agree S (fy_headers w1 row y1) (fy_headers w2 row y2)"
proof (rule agreeI)
  fix a
  assume "a \<notin> S"
  with assms(2) have "a \<notin> {(''K'', row), (''M'', row), (''O'', row)}" by blast
  then have "cells (fy_headers w1 row y1) a = cells w1 a"
    and "cells (fy_headers w2 row y2) a = cells w2 a"
    by (rule fy_headers_frame)+
  with agree_cells [OF assms(1) \<open>a \<notin> S\<close>]
  show "cells (fy_headers w1 row y1) a = cells (fy_headers w2 row y2) a"
    by simp
qed (simp_all add: fy_headers_fields agree_fields [OF assms(1)])

lemma agree_refl: "agree S w w"
  by (rule agreeI) simp_all

lemmas agree_steps =
  agree_refl
  writer_agree [OF writer_set_column_widths] writer_agree [OF writer_add_cash_flow_items]
  writer_agree [OF writer_add_income_statement_items]
  writer_agree [OF writer_add_balance_sheet_items] writer_agree [OF writer_section_header]
  writer_agree [OF writer_assets_header] writer_agree [OF writer_date_headers]
  writer_agree [OF writer_balance_sheet_headers]

lemma agree_report:
  "agree fy_header_cells (create_excel_report y1 self) (create_excel_report y2 self)"
  unfolding create_excel_report_def Let_def
  by (intro agree_steps agree_fy_headers) (simp_all add: fy_header_cells_def)


lemma dom_set_value: "dom (cells (set_value w a v)) = insert a (dom (cells w))"
  by (simp add: set_value_def)

lemma dom_put_pct: "dom (cells (put_pct w a p)) = insert a (dom (cells w))"
  by (simp add: put_pct_def set_value_def set_number_format_def)

section \<open>Every stage writes from its own row down\<close>

text \<open>
  Each function of the layout writes only into its own row and the rows below, so the
  stages that follow a row of headers leave that row alone.
\<close>

lemma from_rowI:
  "(\<And>w c r. r < lo \<Longrightarrow> cells (f w) (c, r) = cells w (c, r)) \<Longrightarrow> from_row lo f"
  unfolding from_row_def by blast

lemma from_rowD: "from_row lo f \<Longrightarrow> r < lo \<Longrightarrow> cells (f w) (c, r) = cells w (c, r)"
  unfolding from_row_def by blast

lemma from_row_id: "from_row lo (\<lambda>w. w)"
  by (rule from_rowI) simp

lemma from_row_after: "from_row lo g \<Longrightarrow> from_row lo f \<Longrightarrow> from_row lo (\<lambda>w. g (f w))"
  by (rule from_rowI) (simp add: from_rowD)

lemma from_row_if:
  "(b \<Longrightarrow> from_row lo f) \<Longrightarrow> (\<not> b \<Longrightarrow> from_row lo g) \<Longrightarrow>
   from_row lo (\<lambda>w. if b then f w else g w)"
  by (cases b) simp_all

lemma from_row_case_option:
  "(t = None \<Longrightarrow> from_row lo f) \<Longrightarrow> (\<And>x. t = Some x \<Longrightarrow> from_row lo (g x)) \<Longrightarrow>
   from_row lo (\<lambda>w. case t of None \<Rightarrow> f w | Some x \<Rightarrow> g x w)"
  by (cases t) simp_all

lemma from_row_foldl:
  "(\<And>x. x \<in> set xs \<Longrightarrow> from_row lo (\<lambda>w. step w x)) \<Longrightarrow> from_row lo (\<lambda>w. foldl step w xs)"
proof (induction xs rule: rev_induct)
  case Nil
  show ?case by (simp add: from_row_id)
next
  case (snoc x xs)
  have "from_row lo (\<lambda>w. step (foldl step w xs) x)"
    by (rule from_row_after [where g = "\<lambda>w. step w x"]) (simp_all add: snoc)
  then show ?case by simp
qed

lemma from_row_foldl_after:
  "(\<And>x. x \<in> set xs \<Longrightarrow> from_row lo (\<lambda>w. step w x)) \<Longrightarrow> from_row lo f \<Longrightarrow>
   from_row lo (\<lambda>w. foldl step (f w) xs)"
  by (rule from_row_after [OF from_row_foldl])

lemma from_row_set_value: "lo \<le> r \<Longrightarrow> from_row lo (\<lambda>w. set_value w (c, r) v)"
  by (rule from_rowI) (simp add: cells_set_value)

lemma from_row_set_number_format:
  "lo \<le> r \<Longrightarrow> from_row lo (\<lambda>w. set_number_format w (c, r) v)"
  by (rule from_rowI) (simp add: cells_set_number_format)

lemma from_row_set_font: "lo \<le> r \<Longrightarrow> from_row lo (\<lambda>w. set_font w (c, r) v)"
  by (rule from_rowI) (simp add: cells_set_font)

lemma from_row_set_alignment: "lo \<le> r \<Longrightarrow> from_row lo (\<lambda>w. set_alignment w (c, r) v)"
  by (rule from_rowI) (simp add: cells_set_alignment)

lemma from_row_put_pct: "lo \<le> r \<Longrightarrow> from_row lo (\<lambda>w. put_pct w (c, r) p)"
  by (rule from_rowI) (simp add: put_pct_def cells_simps)

lemma from_row_merge_cells: "from_row lo (\<lambda>w. merge_cells w x)"
  by (rule from_rowI) (simp add: cells_merge_cells)

lemma from_row_set_width: "from_row lo (\<lambda>w. set_width w x n)"
  by (rule from_rowI) (simp add: cells_set_width)

lemma from_row_set_title: "from_row lo (\<lambda>w. w\<lparr>title := t\<rparr>)"
  by (rule from_rowI) simp

lemmas from_row_prims =
  from_row_id
  from_row_after [OF from_row_set_value] from_row_after [OF from_row_set_number_format]
  from_row_after [OF from_row_set_font] from_row_after [OF from_row_set_alignment]
  from_row_after [OF from_row_put_pct]
  from_row_after [OF from_row_merge_cells] from_row_after [OF from_row_set_width]
  from_row_after [OF from_row_set_title]
  from_row_if from_row_case_option

lemma from_row_add_data_body:
  assumes "lo \<le> row"
  shows "from_row lo (\<lambda>w. fst (add_data_body w row vals c1 c2 c3 c4 c5))"
proof (cases "length vals < 3")
  case True
  have "from_row lo (\<lambda>w. foldl (\<lambda>w (c, v). set_value w (c, row) (Text (u_format_currency v))) w
                  (zip [c1, c3, c5] vals))"
    by (rule from_row_foldl) (simp add: case_prod_beta from_row_set_value assms)
  with True show ?thesis by (simp add: add_data_body_short)
next
  case False
  then have "3 \<le> length vals" by simp
  then have eq: "(\<lambda>w. fst (add_data_body w row vals c1 c2 c3 c4 c5)) =
      (\<lambda>w. put_pct
        (put_pct
           (set_value
              (set_value
                 (set_value w (c1, row) (Text (u_format_currency (vals ! 0))))
                 (c3, row) (Text (u_format_currency (vals ! 1))))
              (c5, row) (Text (u_format_currency (vals ! 2))))
           (c2, row) (u_calculate_pct_change (vals ! 0) (vals ! 1)))
        (c4, row) (u_calculate_pct_change (vals ! 1) (vals ! 2)))"
    by (simp add: add_data_body_full)
  show ?thesis
    unfolding eq by (intro from_row_prims) (rule assms)+
qed

lemma from_row_add_both: "lo \<le> row \<Longrightarrow> from_row lo (\<lambda>w. add_both w row q a f)"
  unfolding add_both_def u_add_quarterly_data_def u_add_annual_data_def
  by (intro from_row_prims from_row_after [OF from_row_add_data_body] from_row_add_data_body)

lemma from_row_working_capital:
  "lo \<le> row \<Longrightarrow> from_row lo (\<lambda>w. u_calculate_working_capital self w row)"
  unfolding u_calculate_working_capital_def working_capital_part_def
    working_capital_loop_def Let_def
  by (intro from_row_prims from_row_foldl_after)

lemma from_row_current_ratio:
  "lo \<le> row \<Longrightarrow> from_row lo (\<lambda>w. u_calculate_current_ratio self w row)"
  unfolding u_calculate_current_ratio_def current_ratio_part_def current_ratio_loop_def
  by (intro from_row_prims from_row_foldl_after)

lemma from_row_quick_ratio:
  "lo \<le> row \<Longrightarrow> from_row lo (\<lambda>w. u_calculate_quick_ratio self w row)"
  unfolding u_calculate_quick_ratio_def quick_ratio_part_def quick_ratio_loop_def Let_def
  by (intro from_row_prims from_row_foldl_after)

lemma from_row_gross_margin:
  "lo \<le> row \<Longrightarrow> from_row lo (\<lambda>w. u_calculate_gross_margin self w row)"
  unfolding u_calculate_gross_margin_def gross_margin_part_def gross_margin_loop_def
  by (intro from_row_prims from_row_foldl_after)

lemma from_row_net_cash_flow:
  "lo \<le> row \<Longrightarrow> from_row lo (\<lambda>w. u_calculate_net_cash_flow self w row)"
  unfolding u_calculate_net_cash_flow_def net_cash_flow_part_def net_cash_flow_loop_def
  by (intro from_row_prims from_row_foldl_after)

lemmas from_row_data =
  from_row_after [OF from_row_add_both] from_row_after [OF from_row_working_capital]
  from_row_after [OF from_row_current_ratio] from_row_after [OF from_row_quick_ratio]
  from_row_after [OF from_row_gross_margin] from_row_after [OF from_row_net_cash_flow]


lemma from_row_balance_sheet_items_loop:
  "lo \<le> row \<Longrightarrow> from_row lo (\<lambda>w. fst (balance_sheet_items_loop self w row items))"
proof (induction items arbitrary: row)
  case Nil
  show ?case by (simp add: from_row_id)
next
  case (Cons it items)
  obtain item_name field_name where it: "it = (item_name, field_name)"
    by (cases it)
  from Cons.prems have le: "lo \<le> row + 1" by simp
  show ?case
    unfolding it balance_sheet_items_loop.simps Let_def
    by (intro from_row_after [OF Cons.IH [OF le]] from_row_prims from_row_data)
       (rule Cons.prems)+
qed

lemma from_row_income_items_loop:
  "lo \<le> row \<Longrightarrow> from_row lo (\<lambda>w. fst (income_items_loop self w row items))"
proof (induction items arbitrary: row)
  case Nil
  show ?case by (simp add: from_row_id)
next
  case (Cons it items)
  obtain item_name field_name where it: "it = (item_name, field_name)"
    by (cases it)
  from Cons.prems have le: "lo \<le> row + 1" by simp
  show ?case
    unfolding it income_items_loop.simps Let_def
    by (intro from_row_after [OF Cons.IH [OF le]] from_row_prims from_row_data)
       (rule Cons.prems)+
qed

lemma from_row_field_items_loop:
  "lo \<le> row \<Longrightarrow> from_row lo (\<lambda>w. fst (field_items_loop q a w row items))"
proof (induction items arbitrary: row)
  case Nil
  show ?case by (simp add: from_row_id)
next
  case (Cons it items)
  obtain item_name field_name where it: "it = (item_name, field_name)"
    by (cases it)
  from Cons.prems have le: "lo \<le> row + 1" by simp
  show ?case
    unfolding it field_items_loop.simps Let_def
    by (intro from_row_after [OF Cons.IH [OF le]] from_row_prims from_row_data)
       (rule Cons.prems)+
qed

lemmas from_row_loops =
  from_row_after [OF from_row_balance_sheet_items_loop]
  from_row_after [OF from_row_income_items_loop]
  from_row_after [OF from_row_field_items_loop]

lemma from_row_add_balance_sheet_items:
  assumes "lo \<le> start_row"
  shows "from_row lo (\<lambda>w. fst (u_add_balance_sheet_items self w start_row))"
  unfolding u_add_balance_sheet_items_def Let_def case_prod_beta fst_conv
    snd_balance_sheet_items_loop snd_field_items_loop
  by (intro from_row_prims from_row_data from_row_loops) (use assms in simp_all)

lemma from_row_add_income_statement_items:
  "lo \<le> start_row \<Longrightarrow> from_row lo (\<lambda>w. fst (u_add_income_statement_items self w start_row))"
  unfolding u_add_income_statement_items_def
  by (rule from_row_income_items_loop)

lemma from_row_add_cash_flow_items:
  assumes "lo \<le> start_row"
  shows "from_row lo (\<lambda>w. fst (u_add_cash_flow_items self w start_row))"
  unfolding u_add_cash_flow_items_def Let_def case_prod_beta fst_conv
    snd_field_items_loop
  by (intro from_row_prims from_row_data from_row_loops) (use assms in simp_all)

lemma from_row_set_column_widths: "from_row lo set_column_widths"
  by (rule from_rowI) (simp add: set_column_widths_def cells_set_width)

lemma from_row_section_header: "lo \<le> row \<Longrightarrow> from_row lo (\<lambda>w. section_header w row label)"
  unfolding section_header_def by (intro from_row_prims)

lemma from_row_fy_headers: "lo \<le> row \<Longrightarrow> from_row lo (\<lambda>w. fy_headers w row y)"
  unfolding fy_headers_def by (intro from_row_prims)

lemma from_row_date_headers: "lo \<le> 6 \<Longrightarrow> from_row lo (\<lambda>w. date_headers w table c1 c2 c3)"
  unfolding date_headers_def by (intro from_row_prims)

lemma from_row_assets_header: "lo \<le> 7 \<Longrightarrow> from_row lo assets_header"
  unfolding assets_header_def Let_def
  by (intro from_row_prims from_row_foldl_after from_row_set_value)

lemmas from_row_steps =
  from_row_id
  from_row_after [OF from_row_set_column_widths]
  from_row_after [OF from_row_add_cash_flow_items]
  from_row_after [OF from_row_add_income_statement_items]
  from_row_after [OF from_row_add_balance_sheet_items]
  from_row_after [OF from_row_section_header]
  from_row_after [OF from_row_fy_headers]
  from_row_after [OF from_row_date_headers]
  from_row_after [OF from_row_assets_header]

lemma fy_headers_cells:
  "cvalue (cell_at (fy_headers w row y) (''K'', row)) = Some (Text (fy_header (y - 1)))"
  "cvalue (cell_at (fy_headers w row y) (''M'', row)) = Some (Text (fy_header (y - 2)))"
  "cvalue (cell_at (fy_headers w row y) (''O'', row)) = Some (Text (fy_header (y - 3)))"
  by (simp_all add: fy_headers_def cell_at_set_value)

lemma cell_at_from_row:
  "from_row lo f \<Longrightarrow> r < lo \<Longrightarrow> cell_at (f w) (c, r) = cell_at w (c, r)"
  by (simp add: cell_at_def from_rowD)

lemma report_after_row_5:
  "cell_at (create_excel_report year self) (c, 5) =
     cell_at (fy_headers (balance_sheet_headers (report_title new_worksheet)) 5 year) (c, 5)"
proof -
  have "from_row 6 (\<lambda>w.
      set_column_widths
        (fst (u_add_cash_flow_items self
          (fy_headers
            (section_header
              (fst (u_add_income_statement_items self
                (fy_headers
                  (section_header
                    (fst (u_add_balance_sheet_items self
                      (assets_header
                        (date_headers
                          (date_headers w
                            (quarterly_balance_sheet self) ''E'' ''G'' ''I'')
                          (annual_balance_sheet self) ''K'' ''M'' ''O''))
                      8))
                    31 ''Income Statement:'')
                  32 year)
                35))
              56 ''Cash Flows:'')
            57 year)
          62)))"
    by (intro from_row_steps) simp_all
  from cell_at_from_row [OF this, of 5]
  show ?thesis by (simp add: create_excel_report_def Let_def)
qed

lemma report_after_row_32:
  "\<exists>w. \<forall>c. cell_at (create_excel_report year self) (c, 32)
           = cell_at (fy_headers w 32 year) (c, 32)"
proof -
  have "from_row 33 (\<lambda>w.
      set_column_widths
        (fst (u_add_cash_flow_items self
          (fy_headers
            (section_header
              (fst (u_add_income_statement_items self w 35))
              56 ''Cash Flows:'')
            57 year)
          62)))"
    by (intro from_row_steps) simp_all
  from cell_at_from_row [OF this, of 32]
  show ?thesis by (simp add: create_excel_report_def Let_def) blast
qed

lemma report_after_row_57:
  "\<exists>w. \<forall>c. cell_at (create_excel_report year self) (c, 57)
           = cell_at (fy_headers w 57 year) (c, 57)"
proof -
  have "from_row 58 (\<lambda>w. set_column_widths (fst (u_add_cash_flow_items self w 62)))"
    by (intro from_row_steps) simp_all
  from cell_at_from_row [OF this, of 57]
  show ?thesis by (simp add: create_excel_report_def Let_def) blast
qed

lemma report_fy_header_cells:
  assumes "r \<in> {5, 32, 57}"
  shows "cvalue (cell_at (create_excel_report year self) (''K'', r))
           = Some (Text (fy_header (year - 1)))"
    and "cvalue (cell_at (create_excel_report year self) (''M'', r))
           = Some (Text (fy_header (year - 2)))"
    and "cvalue (cell_at (create_excel_report year self) (''O'', r))
           = Some (Text (fy_header (year - 3)))"
proof -
  from assms consider "r = 5" | "r = 32" | "r = 57" by blast
  then have "cvalue (cell_at (create_excel_report year self) (''K'', r))
               = Some (Text (fy_header (year - 1)))
           \<and> cvalue (cell_at (create_excel_report year self) (''M'', r))
               = Some (Text (fy_header (year - 2)))
           \<and> cvalue (cell_at (create_excel_report year self) (''O'', r))
               = Some (Text (fy_header (year - 3)))"
  proof cases
    case 1
    show ?thesis
      unfolding 1 report_after_row_5 by (simp add: fy_headers_cells)
  next
    case 2
    obtain w where "\<forall>c. cell_at (create_excel_report year self) (c, 32)
                          = cell_at (fy_headers w 32 year) (c, 32)"
      using report_after_row_32 [of year self] by blast
    then show ?thesis
      unfolding 2 by (simp add: fy_headers_cells)
  next
    case 3
    obtain w where "\<forall>c. cell_at (create_excel_report year self) (c, 57)
                          = cell_at (fy_headers w 57 year) (c, 57)"
      using report_after_row_57 [of year self] by blast
    then show ?thesis
      unfolding 3 by (simp add: fy_headers_cells)
  qed
  then show "cvalue (cell_at (create_excel_report year self) (''K'', r))
           = Some (Text (fy_header (year - 1)))"
    and "cvalue (cell_at (create_excel_report year self) (''M'', r))
           = Some (Text (fy_header (year - 2)))"
    and "cvalue (cell_at (create_excel_report year self) (''O'', r))
           = Some (Text (fy_header (year - 3)))"
    by blast+
qed

section \<open>The report and the current year\<close>

text \<open>
  C8 (as amended). The report is a function of the tables and of the current calendar
  year: two runs on the same tables give the same cells (value, number format, font,
  alignment) at every address except the nine annual header cells K5, M5, O5, K32, M32,
  O32, K57, M57, O57, and the same title, merged ranges and column widths; in each of
  the header rows 5, 32 and 57 the cells K, M and O hold the texts \<^verbatim>\<open>FY\<close> year-1,
  \<^verbatim>\<open>FY\<close> year-2 and \<^verbatim>\<open>FY\<close> year-3 of the year of the run, whatever the tables are.
\<close>
theorem report_year_dependence:
  "(a \<notin> fy_header_cells \<longrightarrow>
      cells (create_excel_report y1 self) a = cells (create_excel_report y2 self) a)
   \<and> title (create_excel_report y1 self) = title (create_excel_report y2 self)
   \<and> merged_cells (create_excel_report y1 self) = merged_cells (create_excel_report y2 self)
   \<and> column_widths (create_excel_report y1 self) = column_widths (create_excel_report y2 self)
   \<and> (r \<in> {5, 32, 57} \<longrightarrow>
        cvalue (cell_at (create_excel_report y1 self) (''K'', r))
          = Some (Text (''FY '' @ show_int (y1 - 1)))
      \<and> cvalue (cell_at (create_excel_report y1 self) (''M'', r))
          = Some (Text (''FY '' @ show_int (y1 - 2)))
      \<and> cvalue (cell_at (create_excel_report y1 self) (''O'', r))
          = Some (Text (''FY '' @ show_int (y1 - 3))))"
  using agree_cells [OF agree_report [of y1 self y2], of a]
    agree_fields [OF agree_report [of y1 self y2]]
    report_fy_header_cells [of r y1 self]
  unfolding fy_header_def
  by blast

theorem report_year_dependence_witness:
  "(''E'', 5) \<notin> fy_header_cells
   \<and> cells (create_excel_report 2025 ratio_example_generator) (''E'', 5)
       = cells (create_excel_report 2026 ratio_example_generator) (''E'', 5)
   \<and> (32::nat) \<in> {5, 32, 57}
   \<and> cvalue (cell_at (create_excel_report 2025 ratio_example_generator) (''K'', 32))
       = Some (Text ''FY 2024'')
   \<and> cvalue (cell_at (create_excel_report 2025 ratio_example_generator) (''M'', 32))
       = Some (Text ''FY 2023'')
   \<and> cvalue (cell_at (create_excel_report 2025 ratio_example_generator) (''O'', 32))
       = Some (Text ''FY 2022'')"
proof -
  have a: "(''E'', 5) \<notin> fy_header_cells"
    by (simp add: fy_header_cells_def)
  have b: "(32::nat) \<in> {5, 32, 57}" by simp
  have c: "''FY '' @ show_int (2025 - 1) = ''FY 2024''"
    "''FY '' @ show_int (2025 - 2) = ''FY 2023''"
    "''FY '' @ show_int (2025 - 3) = ''FY 2022''"
    by (simp_all add: show_int_def show_nat.simps digit_char_def)
  from report_year_dependence [of "(''E'', 5)" 2025 ratio_example_generator 2026 32] a b
  show ?thesis unfolding c by blast
qed

lemma no_data_report_cells:
  "cvalue (cell_at (create_excel_report y no_data) (''K'', 5)) = Some (Text (fy_header (y - 1)))"
  "cells (create_excel_report y no_data) (''E'', 13) = None"
  by (simp_all add: create_excel_report_def Let_def no_data_fields add_both_None no_data_metrics
        date_headers_None u_add_balance_sheet_items_def u_add_income_statement_items_def
        u_add_cash_flow_items_def balance_sheet_items_def liability_items_def income_items_def
        operating_items_def investing_items_def financing_items_def
        fy_headers_def section_header_def assets_header_def balance_sheet_headers_def
        report_title_def set_column_widths_def cell_at_def cells_simps new_worksheet_def)

lemma fy_header_examples: "fy_header 2024 = ''FY 2024''" "fy_header 2025 = ''FY 2025''"
  by (simp_all add: fy_header_def show_int_def show_nat.simps digit_char_def)

text \<open>
  The claim C8 as stated fails: the same input gives the header \<^verbatim>\<open>FY 2024\<close> in a run of
  the year 2025 and \<^verbatim>\<open>FY 2025\<close> in a run of the year 2026.
\<close>

theorem report_year_counterexample:
  "cvalue (cell_at (create_excel_report 2025 no_data) (''K'', 5)) = Some (Text ''FY 2024'')
   \<and> cvalue (cell_at (create_excel_report 2026 no_data) (''K'', 5)) = Some (Text ''FY 2025'')
   \<and> create_excel_report 2025 no_data \<noteq> create_excel_report 2026 no_data"
proof -
  have a: "cvalue (cell_at (create_excel_report 2025 no_data) (''K'', 5))
             = Some (Text ''FY 2024'')"
    and b: "cvalue (cell_at (create_excel_report 2026 no_data) (''K'', 5))
             = Some (Text ''FY 2025'')"
    using no_data_report_cells(1) [of 2025] no_data_report_cells(1) [of 2026]
    by (simp_all add: fy_header_examples)
  have "create_excel_report 2025 no_data \<noteq> create_excel_report 2026 no_data"
  proof
    assume "create_excel_report 2025 no_data = create_excel_report 2026 no_data"
    with a b have "Some (Text ''FY 2024'') = Some (Text ''FY 2025'')" by simp
    then show False by simp
  qed
  with a b show ?thesis by blast
qed

section \<open>The addresses of the grid\<close>

lemma assets_generator_fields:
  "quarterly_balance_sheet assets_generator = Some delta_example"
  "annual_balance_sheet assets_generator = None"
  "quarterly_income assets_generator = None" "annual_income assets_generator = None"
  "quarterly_cashflow assets_generator = None" "annual_cashflow assets_generator = None"
  by (simp_all add: assets_generator_def)

lemma delta_example_loc:
  "loc delta_example name =
     (if name = ''Total Assets'' then Some [Num (109999 / 1000), Num 10, Num (10 / 11)] else None)"
  by (simp add: delta_example_def)

lemma add_both_delta_example:
  "add_both w row (Some delta_example) None f =
     (if f = ''Total Assets''
      then put_pct
        (put_pct
           (set_value
              (set_value
                 (set_value w (''E'', row) (Text (u_format_currency (Num (109999 / 1000)))))
                 (''G'', row) (Text (u_format_currency (Num 10))))
              (''I'', row) (Text (u_format_currency (Num (10 / 11)))))
           (''F'', row) (u_calculate_pct_change (Num (109999 / 1000)) (Num 10)))
        (''H'', row) (u_calculate_pct_change (Num 10) (Num (10 / 11)))
      else w)"
  by (simp add: add_both_def u_add_quarterly_data_def u_add_annual_data_def delta_example_loc
        add_data_body_full)

lemma assets_generator_metrics:
  "u_calculate_working_capital assets_generator w row = w"
  "u_calculate_current_ratio assets_generator w row = w"
  "u_calculate_quick_ratio assets_generator w row = w"
  "u_calculate_gross_margin assets_generator w row = w"
  "u_calculate_net_cash_flow assets_generator w row = w"
  by (simp_all add: assets_generator_fields delta_example_loc
      u_calculate_working_capital_def working_capital_part_def
      u_calculate_current_ratio_def current_ratio_part_def
      u_calculate_quick_ratio_def quick_ratio_part_def
      u_calculate_gross_margin_def gross_margin_part_def
      u_calculate_net_cash_flow_def net_cash_flow_part_def)

lemma cells_put_pct:
  "cells (put_pct w a p) b =
     (if b = a
      then Some ((cell_at w a)\<lparr>cvalue := Some (Numeric p), number_format := pct_number_format p\<rparr>)
      else cells w b)"
  by (simp add: put_pct_def cells_simps cell_at_set_value)

lemma assets_balance_sheet_cell:
  "cells (fst (u_add_balance_sheet_items assets_generator w 8)) (''E'', 13) \<noteq> None"
  by (simp add: Let_def assets_generator_fields add_both_delta_example add_both_None
        assets_generator_metrics u_add_balance_sheet_items_def
        balance_sheet_items_def liability_items_def cells_put_pct cells_simps)


lemma report_covers_balance_sheet:
  "\<exists>w. covered (fst (u_add_balance_sheet_items self w 8)) (create_excel_report y self)"
  unfolding create_excel_report_def Let_def
  by (rule exI,
      intro writer_right [OF writer_set_column_widths]
        writer_right [OF writer_add_cash_flow_items]
        writer_right [OF writer_add_income_statement_items]
        writer_right [OF writer_fy_headers] writer_right [OF writer_section_header],
      rule covered_refl)

lemma assets_report_cell:
  "cells (create_excel_report y assets_generator) (''E'', 13) \<noteq> None"
proof -
  obtain w where "covered (fst (u_add_balance_sheet_items assets_generator w 8))
                    (create_excel_report y assets_generator)"
    using report_covers_balance_sheet by blast
  moreover have "(''E'', 13) \<in> dom (cells (fst (u_add_balance_sheet_items assets_generator w 8)))"
    using assets_balance_sheet_cell [of w] by blast
  ultimately show ?thesis
    unfolding covered_def by blast
qed

lemma dom_add_data_three:
  assumes "loc df field_name = Some r" and "3 \<le> length r"
  shows "dom (cells (u_add_quarterly_data ws row (Some df) field_name c1 c2 c3 c4 c5 c6)) =
           dom (cells ws) \<union> {(c1, row), (c2, row), (c3, row), (c4, row), (c5, row)}"
    and "dom (cells (u_add_annual_data ws row (Some df) field_name c1 c2 c3 c4 c5)) =
           dom (cells ws) \<union> {(c1, row), (c2, row), (c3, row), (c4, row), (c5, row)}"
  using assms
  by (auto simp: u_add_quarterly_data_def u_add_annual_data_def add_data_body_three
        dom_put_pct dom_set_value)

text \<open>
  C6 (as amended). Every address that receives a value when all source data is missing
  (the title, the headers and the row labels) receives a value for every input. Which
  further cells exist depends on the data: \<^verbatim>\<open>_add_quarterly_data\<close> writes no cell when the
  table is absent or does not hold the line item, and the three value cells and two
  delta cells of the row when the line item has three periods; \<^verbatim>\<open>_calculate_current_ratio\<close>
  writes the cell of a period slot exactly when the current liabilities of that slot
  are not 0.
\<close>
theorem grid_addresses:
  "dom (cells (create_excel_report year no_data)) \<subseteq> dom (cells (create_excel_report year self))
   \<and> u_add_quarterly_data ws row None field_name c1 c2 c3 c4 c5 c6 = ws
   \<and> (loc df field_name = None \<longrightarrow>
        u_add_quarterly_data ws row (Some df) field_name c1 c2 c3 c4 c5 c6 = ws)
   \<and> (loc df' field_name = Some r \<and> 3 \<le> length r \<longrightarrow>
        dom (cells (u_add_quarterly_data ws row (Some df') field_name c1 c2 c3 c4 c5 c6)) =
          dom (cells ws) \<union> {(c1, row), (c2, row), (c3, row), (c4, row), (c5, row)})
   \<and> (balance_sheet_of self g = Some bs
        \<and> loc bs ''Total Current Assets'' = Some ca
        \<and> loc bs ''Total Current Liabilities'' = Some cl
        \<and> i < 3 \<and> i < length ca \<and> i < length cl \<longrightarrow>
        ((value_cols g ! i, row) \<in> dom (cells (u_calculate_current_ratio self ws row))
          \<longleftrightarrow> (value_cols g ! i, row) \<in> dom (cells ws) \<or> num_ne0 (cl ! i)))"
proof -
  have a: "dom (cells (create_excel_report year no_data))
          \<subseteq> dom (cells (create_excel_report year self))"
    using covered_report [of year self] by (simp add: covered_def)
  have b: "u_add_quarterly_data ws row None field_name c1 c2 c3 c4 c5 c6 = ws"
    by (simp add: u_add_quarterly_data_def)
  have c: "loc df field_name = None \<longrightarrow>
        u_add_quarterly_data ws row (Some df) field_name c1 c2 c3 c4 c5 c6 = ws"
    by (simp add: u_add_quarterly_data_def)
  have d: "loc df' field_name = Some r \<and> 3 \<le> length r \<longrightarrow>
        dom (cells (u_add_quarterly_data ws row (Some df') field_name c1 c2 c3 c4 c5 c6)) =
          dom (cells ws) \<union> {(c1, row), (c2, row), (c3, row), (c4, row), (c5, row)}"
    by (intro impI, elim conjE, rule dom_add_data_three)
  have e: "balance_sheet_of self g = Some bs
        \<and> loc bs ''Total Current Assets'' = Some ca
        \<and> loc bs ''Total Current Liabilities'' = Some cl
        \<and> i < 3 \<and> i < length ca \<and> i < length cl \<longrightarrow>
        ((value_cols g ! i, row) \<in> dom (cells (u_calculate_current_ratio self ws row))
          \<longleftrightarrow> (value_cols g ! i, row) \<in> dom (cells ws) \<or> num_ne0 (cl ! i))"
  proof (intro impI, elim conjE)
    assume h: "balance_sheet_of self g = Some bs" "loc bs ''Total Current Assets'' = Some ca"
      "loc bs ''Total Current Liabilities'' = Some cl" "i < 3" "i < length ca" "i < length cl"
    show "(value_cols g ! i, row) \<in> dom (cells (u_calculate_current_ratio self ws row))
          \<longleftrightarrow> (value_cols g ! i, row) \<in> dom (cells ws) \<or> num_ne0 (cl ! i)"
      using current_ratio_slot [OF h, of ws row] by (auto simp: dom_def)
  qed
  from a b c d e show ?thesis by blast
qed

text \<open>
  The claim C6 as stated fails: the cell E13 (the latest quarterly value of Total Assets)
  receives no value when no table is available, and receives one when the quarterly
  balance sheet holds the line item.
\<close>

theorem grid_addresses_counterexample:
  "cells (create_excel_report 2025 no_data) (''E'', 13) = None
   \<and> cells (create_excel_report 2025 assets_generator) (''E'', 13) \<noteq> None"
  using no_data_report_cells(2) [of 2025] assets_report_cell [of 2025] by blast

theorem grid_addresses_witness:
  "loc ratio_example ''Total Assets'' = None
   \<and> loc delta_example ''Total Assets'' = Some [Num (109999 / 1000), Num 10, Num (10 / 11)]
   \<and> 3 \<le> length [Num (109999 / 1000), Num 10, Num (10 / 11)]
   \<and> balance_sheet_of ratio_example_generator Quarterly = Some ratio_example
   \<and> loc ratio_example ''Total Current Assets'' = Some [Num 100, Num 90, Num 80]
   \<and> loc ratio_example ''Total Current Liabilities'' = Some [Num 0, NaN, Num 40]
   \<and> (0::nat) < 3
   \<and> dom (cells (create_excel_report 2025 no_data))
        \<subseteq> dom (cells (create_excel_report 2025 ratio_example_generator))
   \<and> u_add_quarterly_data new_worksheet 13 (Some ratio_example) ''Total Assets''
        ''E'' ''F'' ''G'' ''H'' ''I'' ''J'' = new_worksheet
   \<and> dom (cells (u_add_quarterly_data new_worksheet 13 (Some delta_example) ''Total Assets''
        ''E'' ''F'' ''G'' ''H'' ''I'' ''J'')) =
      {(''E'', 13), (''F'', 13), (''G'', 13), (''H'', 13), (''I'', 13)}
   \<and> (''E'', 25) \<notin> dom (cells (u_calculate_current_ratio ratio_example_generator
        new_worksheet 25))"
proof -
  have h: "loc ratio_example ''Total Assets'' = None"
    "loc delta_example ''Total Assets'' = Some [Num (109999 / 1000), Num 10, Num (10 / 11)]"
    "3 \<le> length [Num (109999 / 1000), Num 10, Num (10 / 11)]"
    "balance_sheet_of ratio_example_generator Quarterly = Some ratio_example"
    "loc ratio_example ''Total Current Assets'' = Some [Num 100, Num 90, Num 80]"
    "loc ratio_example ''Total Current Liabilities'' = Some [Num 0, NaN, Num 40]"
    "(0::nat) < 3"
    by (simp_all add: ratio_example_def delta_example_def ratio_example_generator_def)
  have e: "dom (cells new_worksheet) = {}" "value_cols Quarterly ! 0 = ''E''"
    "\<not> num_ne0 ([Num 0, NaN, Num 40] ! 0)"
    by (simp_all add: new_worksheet_def num_ne0_def)
  note t = grid_addresses [of 2025 ratio_example_generator new_worksheet 25 "''Total Assets''"
      "''E''" "''F''" "''G''" "''H''" "''I''" "''J''" ratio_example delta_example
      "[Num (109999 / 1000), Num 10, Num (10 / 11)]" Quarterly ratio_example
      "[Num 100, Num 90, Num 80]" "[Num 0, NaN, Num 40]" 0]
  note t13 = grid_addresses [of 2025 ratio_example_generator new_worksheet 13 "''Total Assets''"
      "''E''" "''F''" "''G''" "''H''" "''I''" "''J''" ratio_example delta_example
      "[Num (109999 / 1000), Num 10, Num (10 / 11)]" Quarterly ratio_example
      "[Num 100, Num 90, Num 80]" "[Num 0, NaN, Num 40]" 0]
  from t h e have "(''E'', 25) \<notin> dom (cells (u_calculate_current_ratio ratio_example_generator
        new_worksheet 25))"
    by simp
  moreover from t13 h e
  have "dom (cells (u_add_quarterly_data new_worksheet 13 (Some delta_example) ''Total Assets''
        ''E'' ''F'' ''G'' ''H'' ''I'' ''J'')) =
      {(''E'', 13), (''F'', 13), (''G'', 13), (''H'', 13), (''I'', 13)}"
    by auto
  moreover from t13 h
  have "u_add_quarterly_data new_worksheet 13 (Some ratio_example) ''Total Assets''
        ''E'' ''F'' ''G'' ''H'' ''I'' ''J'' = new_worksheet"
    by blast
  moreover from t have "dom (cells (create_excel_report 2025 no_data))
        \<subseteq> dom (cells (create_excel_report 2025 ratio_example_generator))"
    by blast
  ultimately show ?thesis
    using h by blast
qed

section \<open>The format rule in the whole report\<close>
































lemma row_or_zeros_length: "length (row_or_zeros df name) \<le> 3"
  by (simp add: row_or_zeros_def split: option.splits)
























end
